theory Spec2Isabelle
  imports Main
begin

section \<open>JavaScript values\<close>

text \<open>
  The values the two services handle: what \<open>response.json()\<close> yields, the objects the
  code builds, and \<open>undefined\<close>. Numbers are the integer-valued ones (identifiers,
  durations, heights); \<open>NaN\<close> is kept apart where \<open>parseInt\<close> produces it. Strings are
  lists of code units below 256. An object is the list of its properties in insertion
  order; a property read takes the first binding of the name.
\<close>

datatype jsval =
    JUndefined
  | JNull
  | JBool bool
  | JNum int
  | JStr string
  | JArr "jsval list"
  | JObj "(string \<times> jsval) list"

text \<open>
  What the code throws: \<open>new Error(message)\<close>, and the \<open>TypeError\<close> the engine raises
  on a property read of \<open>null\<close> or \<open>undefined\<close> or on a call of something that is no
  function. A rejected \<open>fetch\<close>, \<open>text()\<close> or \<open>json()\<close> is a \<open>TypeError\<close> or
  \<open>SyntaxError\<close> of the platform; it is kept as \<open>Rejected\<close> with its message.
\<close>

datatype js_error =
    Error string
  | TypeError string
  | Rejected string

fun message :: "js_error \<Rightarrow> string" where
  "message (Error m) = m"
| "message (TypeError m) = m"
| "message (Rejected m) = m"

fun truthy :: "jsval \<Rightarrow> bool" where
  "truthy JUndefined = False"
| "truthy JNull = False"
| "truthy (JBool b) = b"
| "truthy (JNum n) = (n \<noteq> 0)"
| "truthy (JStr s) = (s \<noteq> [])"
| "truthy (JArr xs) = True"
| "truthy (JObj ps) = True"

text \<open>
  \<open>v.name\<close> for the property names the code reads (\<open>collection\<close>, \<open>id\<close>, \<open>title\<close>,
  \<open>permalink_url\<close>, \<open>duration\<close>, \<open>artwork_url\<close>, \<open>user\<close>, \<open>username\<close>,
  \<open>full_name\<close>, \<open>media\<close>, \<open>transcodings\<close>, \<open>format\<close>, \<open>protocol\<close>, \<open>url\<close>): none
  of them is a property of a prototype, so on a boolean, number, string or array the read
  gives \<open>undefined\<close>.
\<close>

fun get_prop :: "jsval \<Rightarrow> string \<Rightarrow> js_error + jsval" where
  "get_prop JUndefined name =
     Inl (TypeError (''Cannot read properties of undefined (reading '' @ [CHR 0x27] @ name @ [CHR 0x27] @ '')''))"
| "get_prop JNull name =
     Inl (TypeError (''Cannot read properties of null (reading '' @ [CHR 0x27] @ name @ [CHR 0x27] @ '')''))"
| "get_prop (JObj ps) name = (case map_of ps name of None \<Rightarrow> Inr JUndefined | Some v \<Rightarrow> Inr v)"
| "get_prop v name = Inr JUndefined"

text \<open>\<open>v?.name\<close>: \<open>undefined\<close> when \<open>v\<close> is \<open>null\<close> or \<open>undefined\<close>.\<close>

fun opt_prop :: "jsval \<Rightarrow> string \<Rightarrow> jsval" where
  "opt_prop (JObj ps) name = (case map_of ps name of None \<Rightarrow> JUndefined | Some v \<Rightarrow> v)"
| "opt_prop v name = JUndefined"

subsection \<open>Numbers and strings\<close>

definition digit_char :: "nat \<Rightarrow> char" where
  "digit_char d = char_of (of_char (CHR ''0'') + d)"

fun show_nat :: "nat \<Rightarrow> string" where
  "show_nat n = (if n < 10 then [digit_char n] else show_nat (n div 10) @ [digit_char (n mod 10)])"

declare show_nat.simps [simp del]

definition show_int :: "int \<Rightarrow> string" where
  "show_int i = (if i < 0 then CHR ''-'' # show_nat (nat (- i)) else show_nat (nat i))"

fun starts_with :: "string \<Rightarrow> string \<Rightarrow> bool" where
  "starts_with s [] = True"
| "starts_with [] (p # ps) = False"
| "starts_with (c # cs) (p # ps) = (c = p \<and> starts_with cs ps)"

text \<open>\<open>String.prototype.includes\<close>.\<close>

fun str_includes :: "string \<Rightarrow> string \<Rightarrow> bool" where
  "str_includes [] t = (t = [])"
| "str_includes (c # cs) t = (starts_with (c # cs) t \<or> str_includes cs t)"

text \<open>The white space of \<open>\s\<close> and of \<open>parseInt\<close>, among the code units below 256.\<close>

definition is_space :: "char \<Rightarrow> bool" where
  "is_space c = (of_char c \<in> {9, 10, 11, 12, 13, 32, 160 :: nat})"

definition in_range :: "char \<Rightarrow> char \<Rightarrow> char \<Rightarrow> bool" where
  "in_range lo hi c = ((of_char lo :: nat) \<le> of_char c \<and> (of_char c :: nat) \<le> of_char hi)"

definition is_digit :: "char \<Rightarrow> bool" where
  "is_digit c = in_range (CHR ''0'') (CHR ''9'') c"

definition is_alnum :: "char \<Rightarrow> bool" where
  "is_alnum c = (in_range (CHR ''a'') (CHR ''z'') c \<or> in_range (CHR ''A'') (CHR ''Z'') c \<or> is_digit c)"

definition is_hex_digit :: "char \<Rightarrow> bool" where
  "is_hex_digit c = (is_digit c \<or> in_range (CHR ''a'') (CHR ''f'') c \<or> in_range (CHR ''A'') (CHR ''F'') c)"

definition digit_value :: "char \<Rightarrow> nat" where
  "digit_value c =
     (if is_digit c then of_char c - of_char (CHR ''0'')
      else if in_range (CHR ''a'') (CHR ''f'') c then of_char c - of_char (CHR ''a'') + 10
      else of_char c - of_char (CHR ''A'') + 10)"

text \<open>
  \<open>parseInt(s)\<close> with no radix: leading white space is skipped, a sign is read, a prefix
  \<open>0x\<close> or \<open>0X\<close> selects radix 16, and the longest run of digits is the value; with no
  digit the result is \<open>NaN\<close>, here \<open>None\<close>. The value is the mathematical integer (the
  rounding of a number beyond 2^53 is not modelled).
\<close>

definition parseInt :: "string \<Rightarrow> int option" where
  "parseInt s =
     (let s1 = dropWhile is_space s;
          negative = starts_with s1 ''-'';
          s2 = (if starts_with s1 ''-'' \<or> starts_with s1 ''+'' then tl s1 else s1);
          hex = (starts_with s2 ''0x'' \<or> starts_with s2 ''0X'');
          s3 = (if hex then drop 2 s2 else s2);
          radix = (if hex then 16 else 10);
          z = takeWhile (if hex then is_hex_digit else is_digit) s3;
          n = foldl (\<lambda>a c. a * radix + digit_value c) 0 z
      in if z = [] then None else Some (if negative then - int n else int n))"

text \<open>\<open>Number.prototype.toString\<close> of what \<open>parseInt\<close> returned.\<close>

definition number_toString :: "int option \<Rightarrow> string" where
  "number_toString n = (case n of None \<Rightarrow> ''NaN'' | Some i \<Rightarrow> show_int i)"

text \<open>
  \<open>a <= b\<close> on numbers, where \<open>None\<close> is \<open>undefined\<close> on the left (it converts to
  \<open>NaN\<close>) and \<open>NaN\<close> on the right: false as soon as one side is \<open>NaN\<close>.
\<close>

definition js_le :: "int option \<Rightarrow> int option \<Rightarrow> bool" where
  "js_le a b = (case (a, b) of (Some x, Some y) \<Rightarrow> x \<le> y | _ \<Rightarrow> False)"

text \<open>
  \<open>JSON.stringify\<close>, kept as the value the text denotes: a property whose value is
  \<open>undefined\<close> is left out, an \<open>undefined\<close> array element becomes \<open>null\<close>.
\<close>

fun JSON_stringify :: "jsval \<Rightarrow> jsval" where
  "JSON_stringify (JArr xs) =
     JArr (map (\<lambda>x. if x = JUndefined then JNull else JSON_stringify x) xs)"
| "JSON_stringify (JObj ps) =
     JObj (map (\<lambda>(k, v). (k, JSON_stringify v)) (filter (\<lambda>(k, v). v \<noteq> JUndefined) ps))"
| "JSON_stringify v = v"

text \<open>
  The string a template literal makes of a value: an array is its elements joined by
  commas, \<open>null\<close> and \<open>undefined\<close> elements being empty.
\<close>

fun join_comma :: "string list \<Rightarrow> string" where
  "join_comma [] = []"
| "join_comma [a] = a"
| "join_comma (a # b # rest) = a @ '','' @ join_comma (b # rest)"

fun js_toString :: "jsval \<Rightarrow> string" where
  "js_toString JUndefined = ''undefined''"
| "js_toString JNull = ''null''"
| "js_toString (JBool b) = (if b then ''true'' else ''false'')"
| "js_toString (JNum n) = show_int n"
| "js_toString (JStr s) = s"
| "js_toString (JArr xs) =
     join_comma (map (\<lambda>x. if x = JUndefined \<or> x = JNull then [] else js_toString x) xs)"
| "js_toString (JObj ps) = ''[object Object]''"

section \<open>The download service: \<open>/youtube/video\<close>\<close>

text \<open>
  A format of \<open>info.formats\<close> as \<open>ytdl.getInfo\<close> returns it, with the fields the handler
  reads. \<open>height\<close> and \<open>url\<close> may be \<open>undefined\<close>.
\<close>

record format =
  hasVideo :: bool
  hasAudio :: bool
  height :: "int option"
  url :: "string option"
  qualityLabel :: jsval
  container :: jsval

record video_info =
  formats :: "format list"
  title :: jsval

text \<open>
  The library \<open>ytdl-core-enhanced\<close> is not part of the repository. The handler takes its
  two calls as parameters: \<open>getInfo\<close> for \<open>ytdl.getInfo(url)\<close>, and \<open>chooseFormat\<close> for
  \<open>ytdl.chooseFormat(formats, {quality: 'highestvideo', filter: 'audioandvideo'})\<close>, the
  library's choice of the best format with audio and video, which throws when it finds
  none.
\<close>

type_synonym chooser = "format list \<Rightarrow> js_error + format option"

text \<open>Lines 322 to 331: the format for a \<open>quality\<close> parameter.\<close>

definition video_format :: "chooser \<Rightarrow> string \<Rightarrow> format list \<Rightarrow> js_error + format option" where
  "video_format chooseFormat quality fs =
     (if quality = ''highest'' then chooseFormat fs
      else
        let targetHeight = parseInt quality in
        case find (\<lambda>f. hasVideo f \<and> hasAudio f \<and> js_le (height f) targetHeight) fs of
          Some f \<Rightarrow> Inr (Some f)
        | None \<Rightarrow> chooseFormat fs)"

text \<open>\<open>res.status(n).json(v)\<close>; \<open>res.json(v)\<close> has status 200.\<close>

datatype express_response = ResJson nat jsval

text \<open>
  \<open>app.get("/youtube/video", ...)\<close>: \<open>url_param\<close> and \<open>quality_param\<close> are
  \<open>req.query.url\<close> and \<open>req.query.quality\<close> (\<open>None\<close> when absent). Every exception
  inside the \<open>try\<close> becomes the 500 response.
\<close>

definition youtube_video ::
  "(string \<Rightarrow> js_error + video_info) \<Rightarrow> chooser \<Rightarrow> string option \<Rightarrow> string option \<Rightarrow> express_response" where
  "youtube_video getInfo chooseFormat url_param quality_param =
     (let quality = (case quality_param of None \<Rightarrow> ''highest'' | Some q \<Rightarrow> if q = [] then ''highest'' else q) in
      case url_param of
        None \<Rightarrow> ResJson 400 (JObj [(''error'', JStr ''URL parameter is missing'')])
      | Some u \<Rightarrow>
          if u = [] then ResJson 400 (JObj [(''error'', JStr ''URL parameter is missing'')])
          else
            (case getInfo u of
               Inl e \<Rightarrow> ResJson 500 (JObj [(''error'', JStr (message e))])
             | Inr info \<Rightarrow>
                 (case video_format chooseFormat quality (formats info) of
                    Inl e \<Rightarrow> ResJson 500 (JObj [(''error'', JStr (message e))])
                  | Inr None \<Rightarrow> ResJson 404 (JObj [(''error'', JStr ''No suitable format found'')])
                  | Inr (Some f) \<Rightarrow>
                      (case url f of
                         None \<Rightarrow> ResJson 404 (JObj [(''error'', JStr ''No suitable format found'')])
                       | Some fu \<Rightarrow>
                           if fu = [] then ResJson 404 (JObj [(''error'', JStr ''No suitable format found'')])
                           else ResJson 200 (JSON_stringify (JObj
                                  [(''success'', JBool True), (''title'', title info), (''url'', JStr fu),
                                   (''quality'', qualityLabel f), (''container'', container f)]))))))"

subsection \<open>The library's choice\<close>

text \<open>
  Modelled from the spec: \<open>ytdl.chooseFormat\<close> belongs to the library
  \<open>ytdl-core-enhanced\<close>, which is not among the repository's files. The specification
  (4.4, platform B) calls what the call with
  \<open>{quality: 'highestvideo', filter: 'audioandvideo'}\<close> returns "the globally
  highest-quality audio+video candidate". That sentence as a contract on the parameter
  \<open>chooseFormat\<close>: whenever the list holds a format with audio and video, the choice
  is a format of the list with audio and video that no other such format of the list
  outranks. The library's order of video quality is not in the repository either; it is
  the parameter \<open>rank\<close>. Nothing is required of the choice on a list without a format
  with audio and video.
\<close>

definition highest_audio_video :: "(format \<Rightarrow> 'r::linorder) \<Rightarrow> chooser \<Rightarrow> bool" where
  "highest_audio_video rank chooseFormat =
     (\<forall>fs. (\<exists>g\<in>set fs. hasVideo g \<and> hasAudio g) \<longrightarrow>
        (\<exists>f\<in>set fs. chooseFormat fs = Inr (Some f) \<and> hasVideo f \<and> hasAudio f \<and>
           (\<forall>g\<in>set fs. hasVideo g \<and> hasAudio g \<longrightarrow> rank g \<le> rank f)))"

text \<open>
  Modelled from the spec: a chooser of that kind, to run the handler with. Among the
  formats with audio and video it takes the first of highest rank (the specification's
  tie-break: the first in upstream order wins), and it throws when there is none.
\<close>

fun first_highest :: "(format \<Rightarrow> 'r::linorder) \<Rightarrow> format \<Rightarrow> format list \<Rightarrow> format" where
  "first_highest rank best [] = best"
| "first_highest rank best (f # fs) = first_highest rank (if rank best < rank f then f else best) fs"

definition choose_highest :: "(format \<Rightarrow> 'r::linorder) \<Rightarrow> chooser" where
  "choose_highest rank fs =
     (case filter (\<lambda>f. hasVideo f \<and> hasAudio f) fs of
        [] \<Rightarrow> Inl (Error ''No such format found: highestvideo'')
      | g # gs \<Rightarrow> Inr (Some (first_highest rank g gs)))"

section \<open>The SoundCloud proxy worker\<close>

subsection \<open>The two regular expressions of \<open>getClientId\<close>\<close>

definition dquote :: char where
  "dquote = char_of (34 :: nat)"

definition squote :: char where
  "squote = char_of (39 :: nat)"

definition ends_with :: "string \<Rightarrow> string \<Rightarrow> bool" where
  "ends_with s t = (length t \<le> length s \<and> drop (length s - length t) s = t)"

text \<open>
  \<open>/src="(https:\/\/[^"]*\.js)"/\<close> tried at the start of \<open>s\<close>: after the literal
  \<open>src="https://\<close> the class \<open>[^"]*\<close> cannot pass a double quote, so the closing
  quote of the pattern is the first one that follows, and the characters before it must
  end in \<open>.js\<close>. The result is group 1 and the text after the match.
\<close>

definition script_src_at :: "string \<Rightarrow> (string \<times> string) option" where
  "script_src_at s =
     (if starts_with s (''src='' @ [dquote] @ ''https://'') then
        (let rest = drop 13 s;
             run = takeWhile (\<lambda>c. c \<noteq> dquote) rest;
             after = dropWhile (\<lambda>c. c \<noteq> dquote) rest
         in if after \<noteq> [] \<and> ends_with run ''.js'' then Some (''https://'' @ run, tl after) else None)
      else None)"

lemma script_src_at_shorter: "script_src_at s = Some (u, rest) \<Longrightarrow> length rest < length s"
proof -
  assume a: "script_src_at s = Some (u, rest)"
  then have r: "rest = tl (dropWhile (\<lambda>c. c \<noteq> dquote) (drop 13 s))"
    and n: "dropWhile (\<lambda>c. c \<noteq> dquote) (drop 13 s) \<noteq> []"
    by (auto simp: script_src_at_def Let_def split: if_splits)
  have "length (dropWhile (\<lambda>c. c \<noteq> dquote) (drop 13 s)) \<le> length (drop 13 s)"
    by (rule length_dropWhile_le)
  with n r show ?thesis by (cases "dropWhile (\<lambda>c. c \<noteq> dquote) (drop 13 s)") auto
qed

text \<open>
  \<open>html.matchAll(/src="(https:\/\/[^"]*\.js)"/g)\<close>, as the list of the matches' group 1:
  the search goes on after a match, and one character further where there is none.
\<close>

function script_srcs :: "string \<Rightarrow> string list" where
  "script_srcs [] = []"
| "script_srcs (c # cs) =
     (case script_src_at (c # cs) of
        Some (u, rest) \<Rightarrow> u # script_srcs rest
      | None \<Rightarrow> script_srcs cs)"
  by pat_completeness auto
termination
  by (relation "measure length") (auto dest: script_src_at_shorter)

text \<open>
  \<open>/client_id\s*[:=]\s*["']([a-zA-Z0-9]{32})["']/\<close> tried at the start of \<open>s\<close>; the
  result is group 1. The character after \<open>\s*\<close> is never white space, so the greedy
  run is the only way to match.
\<close>

definition client_id_at :: "string \<Rightarrow> string option" where
  "client_id_at s =
     (if starts_with s ''client_id'' then
        (case dropWhile is_space (drop 9 s) of
           [] \<Rightarrow> None
         | sep # s2 \<Rightarrow>
             if sep = CHR '':'' \<or> sep = CHR ''='' then
               (case dropWhile is_space s2 of
                  [] \<Rightarrow> None
                | q1 # s3 \<Rightarrow>
                    if (q1 = dquote \<or> q1 = squote) \<and> length (take 32 s3) = 32 \<and> list_all is_alnum (take 32 s3) then
                      (case drop 32 s3 of
                         [] \<Rightarrow> None
                       | q2 # s4 \<Rightarrow> if q2 = dquote \<or> q2 = squote then Some (take 32 s3) else None)
                    else None)
             else None)
      else None)"

text \<open>\<open>scriptContent.match(...)\<close>: the leftmost match, as its group 1.\<close>

fun match_client_id :: "string \<Rightarrow> string option" where
  "match_client_id [] = None"
| "match_client_id (c # cs) =
     (case client_id_at (c # cs) of Some cid \<Rightarrow> Some cid | None \<Rightarrow> match_client_id cs)"

subsection \<open>The network, the clock and the module state\<close>

text \<open>
  An outbound request is kept as its URL before the query and the entries of its
  \<open>URLSearchParams\<close> (their percent-encoding and the fixed request headers are not
  modelled). \<open>response.ok\<close> is a status from 200 to 299. \<open>rtext\<close> is what
  \<open>response.text()\<close> resolves to, \<open>rjson\<close> what \<open>response.json()\<close> resolves to
  (\<open>None\<close>: it rejects, the body is no JSON).
\<close>

datatype request = Get string "(string \<times> string) list"

record upstream_response =
  rstatus :: nat
  rtext :: string
  rjson :: "jsval option"

definition ok :: "upstream_response \<Rightarrow> bool" where
  "ok r = (200 \<le> rstatus r \<and> rstatus r \<le> 299)"

datatype fetch_outcome = Rejects string | Resolves upstream_response

record fetch_result =
  delay :: nat
  outcome :: fetch_outcome

text \<open>
  The worker's module variables \<open>cachedClientId\<close> (\<open>None\<close> is \<open>null\<close>) and
  \<open>clientIdExpiry\<close>, with the environment the code runs in: the clock \<open>Date.now()\<close>
  reads, in milliseconds; the upstream, which answers the \<open>n\<close>-th request of the run
  (so it may answer the same request differently the second time) after \<open>delay\<close>
  milliseconds; and the log of the requests sent so far.
\<close>

record world =
  cachedClientId :: "string option"
  clientIdExpiry :: int
  clock :: int
  upstream :: "nat \<Rightarrow> request \<Rightarrow> fetch_result"
  requests :: "request list"

text \<open>Sending a request, and the moment its answer is there.\<close>

definition issue :: "request \<Rightarrow> world \<Rightarrow> fetch_result \<times> world" where
  "issue req w = (upstream w (length (requests w)) req, w\<lparr>requests := requests w @ [req]\<rparr>)"

definition arrive :: "int \<Rightarrow> fetch_result \<Rightarrow> world \<Rightarrow> world" where
  "arrive sent r w = w\<lparr>clock := max (clock w) (sent + int (delay r))\<rparr>"

text \<open>
  \<open>await fetch(...)\<close> followed by the \<open>await\<close> of the body, with nothing else running
  in between.
\<close>

definition fetch :: "request \<Rightarrow> world \<Rightarrow> fetch_outcome \<times> world" where
  "fetch req w = (case issue req w of (r, w1) \<Rightarrow> (outcome r, arrive (clock w) r w1))"

subsection \<open>\<open>getClientId\<close>\<close>

definition home_page :: request where
  "home_page = Get ''https://soundcloud.com/'' []"

text \<open>
  The loop of lines 35 to 53 over the script matches. A rejected \<open>fetch\<close> or
  \<open>text()\<close> is caught and the loop goes on; the first match is stored with the expiry
  one hour after \<open>now\<close>, the reading of the clock the call began with.
\<close>

fun script_loop :: "int \<Rightarrow> string list \<Rightarrow> world \<Rightarrow> (js_error + string) \<times> world" where
  "script_loop now [] w = (Inl (Error ''Could not extract client_id''), w)"
| "script_loop now (scriptUrl # rest) w =
     (if str_includes scriptUrl ''sndcdn.com'' then
        (case fetch (Get scriptUrl []) w of
           (Rejects m, w1) \<Rightarrow> script_loop now rest w1
         | (Resolves scriptResp, w1) \<Rightarrow>
             (case match_client_id (rtext scriptResp) of
                Some cid \<Rightarrow> (Inr cid, w1\<lparr>cachedClientId := Some cid, clientIdExpiry := now + 3600000\<rparr>)
              | None \<Rightarrow> script_loop now rest w1))
      else script_loop now rest w)"

text \<open>Lines 24 to 55: the scrape, once the cache has missed.\<close>

definition scrape :: "int \<Rightarrow> world \<Rightarrow> (js_error + string) \<times> world" where
  "scrape now w =
     (case fetch home_page w of
        (Rejects m, w1) \<Rightarrow> (Inl (Rejected m), w1)
      | (Resolves response, w1) \<Rightarrow> script_loop now (script_srcs (rtext response)) w1)"

text \<open>Line 19: \<open>cachedClientId && now < clientIdExpiry\<close>.\<close>

definition cache_hit :: "int \<Rightarrow> world \<Rightarrow> bool" where
  "cache_hit now w = (case cachedClientId w of None \<Rightarrow> False | Some c \<Rightarrow> c \<noteq> [] \<and> now < clientIdExpiry w)"

definition getClientId :: "world \<Rightarrow> (js_error + string) \<times> world" where
  "getClientId w =
     (let now = clock w in
      case cachedClientId w of
        None \<Rightarrow> scrape now w
      | Some c \<Rightarrow> if c \<noteq> [] \<and> now < clientIdExpiry w then (Inr c, w) else scrape now w)"

subsection \<open>\<open>searchTracks\<close>, \<open>resolveUrl\<close>, \<open>getStreamUrl\<close>\<close>

text \<open>Sequencing of steps that may throw.\<close>

definition bind :: "js_error + 'a \<Rightarrow> ('a \<Rightarrow> js_error + 'b) \<Rightarrow> js_error + 'b" where
  "bind r f = (case r of Inl e \<Rightarrow> Inl e | Inr v \<Rightarrow> f v)"

text \<open>The callback of \<open>map\<close> in \<open>searchTracks\<close>: it throws only on a track that is \<open>null\<close>.\<close>

definition track_entry :: "jsval \<Rightarrow> js_error + jsval" where
  "track_entry track =
     bind (get_prop track ''id'') (\<lambda>v_id.
     bind (get_prop track ''title'') (\<lambda>v_title.
     bind (get_prop track ''permalink_url'') (\<lambda>v_permalink_url.
     bind (get_prop track ''duration'') (\<lambda>v_duration.
     bind (get_prop track ''artwork_url'') (\<lambda>v_artwork_url.
     bind (get_prop track ''user'') (\<lambda>v_user.
     bind (get_prop track ''media'') (\<lambda>v_media.
     Inr (JObj
       [(''id'', v_id),
        (''title'', v_title),
        (''permalink_url'', v_permalink_url),
        (''duration'', v_duration),
        (''artwork_url'', v_artwork_url),
        (''user'', JObj [(''username'', opt_prop v_user ''username''),
                         (''full_name'', opt_prop v_user ''full_name'')]),
        (''media'', v_media)]))))))))"

text \<open>\<open>Array.prototype.map\<close> with a callback that may throw: the first exception ends it.\<close>

fun map_throwing :: "('a \<Rightarrow> js_error + 'b) \<Rightarrow> 'a list \<Rightarrow> js_error + 'b list" where
  "map_throwing f [] = Inr []"
| "map_throwing f (x # xs) =
     (case f x of
        Inl e \<Rightarrow> Inl e
      | Inr y \<Rightarrow> (case map_throwing f xs of Inl e \<Rightarrow> Inl e | Inr ys \<Rightarrow> Inr (y # ys)))"

text \<open>
  Lines 83 to 96: \<open>(data.collection || []).map(...)\<close>. A truthy \<open>collection\<close> that is
  no array has no \<open>map\<close>.
\<close>

definition tracks_of :: "jsval \<Rightarrow> js_error + jsval list" where
  "tracks_of data =
     bind (get_prop data ''collection'') (\<lambda>collection.
       if truthy collection then
         (case collection of
            JArr ts \<Rightarrow> map_throwing track_entry ts
          | _ \<Rightarrow> Inl (TypeError ''(data.collection || []).map is not a function''))
       else Inr [])"

definition searchTracks :: "string \<Rightarrow> int option \<Rightarrow> world \<Rightarrow> (js_error + jsval list) \<times> world" where
  "searchTracks query limit w =
     (case getClientId w of
        (Inl e, w1) \<Rightarrow> (Inl e, w1)
      | (Inr clientId, w1) \<Rightarrow>
          (case fetch (Get ''https://api-v2.soundcloud.com/search/tracks''
                         [(''q'', query), (''client_id'', clientId), (''limit'', number_toString limit),
                          (''offset'', ''0''), (''linked_partitioning'', ''1'')]) w1 of
             (Rejects m, w2) \<Rightarrow> (Inl (Rejected m), w2)
           | (Resolves response, w2) \<Rightarrow>
               if \<not> ok response then
                 (Inl (Error (''SoundCloud API error: '' @ show_nat (rstatus response))), w2)
               else
                 (case rjson response of
                    None \<Rightarrow> (Inl (Rejected ''Unexpected token in JSON''), w2)
                  | Some data \<Rightarrow> (tracks_of data, w2))))"

definition resolveUrl :: "string \<Rightarrow> world \<Rightarrow> (js_error + jsval) \<times> world" where
  "resolveUrl trackUrl w =
     (case getClientId w of
        (Inl e, w1) \<Rightarrow> (Inl e, w1)
      | (Inr clientId, w1) \<Rightarrow>
          (case fetch (Get ''https://api-v2.soundcloud.com/resolve''
                         [(''url'', trackUrl), (''client_id'', clientId)]) w1 of
             (Rejects m, w2) \<Rightarrow> (Inl (Rejected m), w2)
           | (Resolves response, w2) \<Rightarrow>
               if \<not> ok response then
                 (Inl (Error (''SoundCloud resolve error: '' @ show_nat (rstatus response))), w2)
               else
                 (case rjson response of
                    None \<Rightarrow> (Inl (Rejected ''Unexpected token in JSON''), w2)
                  | Some track \<Rightarrow> (Inr track, w2))))"

text \<open>
  The callback of \<open>find\<close> in \<open>getStreamUrl\<close>: \<open>t.format?.protocol === 'progressive'\<close>.
\<close>

definition is_progressive :: "jsval \<Rightarrow> js_error + bool" where
  "is_progressive t =
     bind (get_prop t ''format'') (\<lambda>fmt. Inr (opt_prop fmt ''protocol'' = JStr ''progressive''))"

text \<open>\<open>Array.prototype.find\<close> with a callback that may throw; \<open>undefined\<close> when nothing is found.\<close>

fun find_throwing :: "(jsval \<Rightarrow> js_error + bool) \<Rightarrow> jsval list \<Rightarrow> js_error + jsval" where
  "find_throwing p [] = Inr JUndefined"
| "find_throwing p (t # ts) =
     (case p t of
        Inl e \<Rightarrow> Inl e
      | Inr b \<Rightarrow> if b then Inr t else find_throwing p ts)"

text \<open>\<open>transcodings[0]\<close>.\<close>

definition first_element :: "jsval list \<Rightarrow> jsval" where
  "first_element ts = (case ts of [] \<Rightarrow> JUndefined | t # rest \<Rightarrow> t)"

text \<open>
  Lines 124 to 137 of \<open>getStreamUrl\<close>: the transcoding chosen for the resolved track.
\<close>

definition select_transcoding :: "jsval \<Rightarrow> js_error + jsval" where
  "select_transcoding track =
     bind (get_prop track ''media'') (\<lambda>media.
       if \<not> truthy (opt_prop media ''transcodings'') then Inl (Error ''No transcodings available'')
       else
         (case opt_prop media ''transcodings'' of
            JArr transcodings \<Rightarrow>
              bind (find_throwing is_progressive transcodings) (\<lambda>found.
                let transcoding = (if \<not> truthy found then first_element transcodings else found) in
                if \<not> truthy (opt_prop transcoding ''url'') then Inl (Error ''No transcoding URL found'')
                else Inr transcoding)
          | _ \<Rightarrow> Inl (TypeError ''transcodings.find is not a function'')))"

definition getStreamUrl :: "string \<Rightarrow> world \<Rightarrow> (js_error + jsval) \<times> world" where
  "getStreamUrl trackUrl w =
     (case resolveUrl trackUrl w of
        (Inl e, w1) \<Rightarrow> (Inl e, w1)
      | (Inr track, w1) \<Rightarrow>
          (case select_transcoding track of
             Inl e \<Rightarrow> (Inl e, w1)
           | Inr transcoding \<Rightarrow>
               (case getClientId w1 of
                  (Inl e, w2) \<Rightarrow> (Inl e, w2)
                | (Inr clientId, w2) \<Rightarrow>
                    (case fetch (Get (js_toString (opt_prop transcoding ''url'') @ ''?client_id='' @ clientId) []) w2 of
                       (Rejects m, w3) \<Rightarrow> (Inl (Rejected m), w3)
                     | (Resolves streamResponse, w3) \<Rightarrow>
                         if \<not> ok streamResponse then
                           (Inl (Error (''Stream URL fetch error: '' @ show_nat (rstatus streamResponse))), w3)
                         else
                           (case rjson streamResponse of
                              None \<Rightarrow> (Inl (Rejected ''Unexpected token in JSON''), w3)
                            | Some streamData \<Rightarrow>
                                (bind (get_prop streamData ''url'') (\<lambda>stream_url.
                                   Inr (JObj
                                     [(''url'', stream_url),
                                      (''track'', JObj
                                         [(''id'', opt_prop track ''id''),
                                          (''title'', opt_prop track ''title''),
                                          (''permalink_url'', opt_prop track ''permalink_url''),
                                          (''duration'', opt_prop track ''duration''),
                                          (''artwork_url'', opt_prop track ''artwork_url''),
                                          (''user'', JObj
                                             [(''username'', opt_prop (opt_prop track ''user'') ''username''),
                                              (''full_name'', opt_prop (opt_prop track ''user'') ''full_name'')])])])),
                                 w3))))))"

subsection \<open>The gateway: \<open>fetch(request, env, ctx)\<close>\<close>

text \<open>
  An incoming request: its method, the path of its URL and the entries of the URL's
  query, in order. \<open>searchParams.get\<close> returns the first value of a name, \<open>null\<close>
  (\<open>None\<close>) when there is none.
\<close>

record http_request =
  http_method :: string
  pathname :: string
  searchParams :: "(string \<times> string) list"

record http_response =
  status :: nat
  headers :: "(string \<times> string) list"
  body :: "jsval option"

definition corsHeaders :: "(string \<times> string) list" where
  "corsHeaders =
     [(''Access-Control-Allow-Origin'', ''*''),
      (''Access-Control-Allow-Methods'', ''GET, OPTIONS''),
      (''Access-Control-Allow-Headers'', ''Content-Type''),
      (''Content-Type'', ''application/json'')]"

text \<open>\<open>new Response(JSON.stringify(v), {status, headers: corsHeaders})\<close>.\<close>

definition json_response :: "nat \<Rightarrow> jsval \<Rightarrow> http_response" where
  "json_response code v = \<lparr>status = code, headers = corsHeaders, body = Some (JSON_stringify v)\<rparr>"

text \<open>\<open>x || d\<close> on the result of \<open>searchParams.get\<close>.\<close>

definition param_or :: "string option \<Rightarrow> string \<Rightarrow> string" where
  "param_or x d = (case x of None \<Rightarrow> d | Some v \<Rightarrow> if v = [] then d else v)"

text \<open>The \<open>catch\<close> of the handler: every exception becomes the 500 response.\<close>

definition catch_500 :: "(js_error + jsval) \<times> world \<Rightarrow> http_response \<times> world" where
  "catch_500 rw =
     (case rw of
        (Inl e, w1) \<Rightarrow> (json_response 500 (JObj [(''error'', JStr (message e))]), w1)
      | (Inr v, w1) \<Rightarrow> (json_response 200 v, w1))"

definition missing_parameter :: "string \<Rightarrow> http_response" where
  "missing_parameter name = json_response 400 (JObj [(''error'', JStr (''Missing query parameter: '' @ name))])"

definition handle_fetch :: "http_request \<Rightarrow> world \<Rightarrow> http_response \<times> world" where
  "handle_fetch request w =
     (let path = pathname request;
          params = map_of (searchParams request) in
      if http_method request = ''OPTIONS'' then (\<lparr>status = 200, headers = corsHeaders, body = None\<rparr>, w)
      else if path = ''/health'' then (json_response 200 (JObj [(''status'', JStr ''ok'')]), w)
      else if path = ''/search'' then
        (let limit = parseInt (param_or (params ''limit'') ''4'') in
         case params ''q'' of
           None \<Rightarrow> (missing_parameter ''q'', w)
         | Some query \<Rightarrow>
             if query = [] then (missing_parameter ''q'', w)
             else
               catch_500 (case searchTracks query limit w of
                            (Inl e, w1) \<Rightarrow> (Inl e, w1)
                          | (Inr tracks, w1) \<Rightarrow> (Inr (JObj [(''tracks'', JArr tracks)]), w1)))
      else if path = ''/resolve'' then
        (case params ''url'' of
           None \<Rightarrow> (missing_parameter ''url'', w)
         | Some trackUrl \<Rightarrow>
             if trackUrl = [] then (missing_parameter ''url'', w)
             else
               catch_500 (case resolveUrl trackUrl w of
                            (Inl e, w1) \<Rightarrow> (Inl e, w1)
                          | (Inr track, w1) \<Rightarrow> (Inr (JObj [(''track'', track)]), w1)))
      else if path = ''/stream'' then
        (case params ''url'' of
           None \<Rightarrow> (missing_parameter ''url'', w)
         | Some trackUrl \<Rightarrow>
             if trackUrl = [] then (missing_parameter ''url'', w)
             else catch_500 (getStreamUrl trackUrl w))
      else
        (json_response 404 (JObj
           [(''error'', JStr ''Not found''),
            (''endpoints'', JArr [JStr ''/search?q=...'', JStr ''/resolve?url=...'',
                                  JStr ''/stream?url=...'', JStr ''/health''])]), w))"

subsection \<open>Concurrent calls of \<open>getClientId\<close>\<close>

text \<open>
  The worker runs on one thread: a call runs until its next \<open>await\<close>, then any other
  call may run. A call of \<open>getClientId\<close> is therefore a sequence of segments, and its
  state between two segments is what it is waiting for: the landing page (with \<open>now\<close>,
  the time the request was sent and its pending answer), or a script (with the matches
  still to be tried), until it has returned or thrown.
\<close>

datatype call =
    NotStarted
  | AwaitingPage int int fetch_result
  | AwaitingScript int int fetch_result "string list"
  | Returned "js_error + string"

text \<open>The loop of lines 35 to 53 up to its next \<open>await fetch(scriptUrl)\<close>.\<close>

fun next_script :: "int \<Rightarrow> string list \<Rightarrow> world \<Rightarrow> call \<times> world" where
  "next_script now [] w = (Returned (Inl (Error ''Could not extract client_id'')), w)"
| "next_script now (scriptUrl # rest) w =
     (if str_includes scriptUrl ''sndcdn.com'' then
        (case issue (Get scriptUrl []) w of (r, w1) \<Rightarrow> (AwaitingScript now (clock w) r rest, w1))
      else next_script now rest w)"

definition start_scrape :: "int \<Rightarrow> world \<Rightarrow> call \<times> world" where
  "start_scrape now w = (case issue home_page w of (r, w1) \<Rightarrow> (AwaitingPage now (clock w) r, w1))"

text \<open>One segment of a call: from where it stands to its next \<open>await\<close> or its end.\<close>

fun resume :: "call \<Rightarrow> world \<Rightarrow> call \<times> world" where
  "resume NotStarted w =
     (let now = clock w in
      case cachedClientId w of
        None \<Rightarrow> start_scrape now w
      | Some c \<Rightarrow> if c \<noteq> [] \<and> now < clientIdExpiry w then (Returned (Inr c), w) else start_scrape now w)"
| "resume (AwaitingPage now sent r) w =
     (let w1 = arrive sent r w in
      case outcome r of
        Rejects m \<Rightarrow> (Returned (Inl (Rejected m)), w1)
      | Resolves response \<Rightarrow> next_script now (script_srcs (rtext response)) w1)"
| "resume (AwaitingScript now sent r rest) w =
     (let w1 = arrive sent r w in
      case outcome r of
        Rejects m \<Rightarrow> next_script now rest w1
      | Resolves scriptResp \<Rightarrow>
          (case match_client_id (rtext scriptResp) of
             Some cid \<Rightarrow> (Returned (Inr cid), w1\<lparr>cachedClientId := Some cid, clientIdExpiry := now + 3600000\<rparr>)
           | None \<Rightarrow> next_script now rest w1))"
| "resume (Returned res) w = (Returned res, w)"

text \<open>
  The event loop: \<open>Run i\<close> lets call \<open>i\<close> run its next segment, \<open>Wait d\<close> lets \<open>d\<close>
  milliseconds pass. A schedule is any list of events.
\<close>

datatype event = Run nat | Wait nat

fun step :: "event \<Rightarrow> call list \<times> world \<Rightarrow> call list \<times> world" where
  "step (Run i) (cs, w) =
     (if i < length cs then (case resume (cs ! i) w of (c, w1) \<Rightarrow> (cs[i := c], w1)) else (cs, w))"
| "step (Wait d) (cs, w) = (cs, w\<lparr>clock := clock w + int d\<rparr>)"

fun run :: "event list \<Rightarrow> call list \<times> world \<Rightarrow> call list \<times> world" where
  "run [] s = s"
| "run (e # es) s = run es (step e s)"

text \<open>The scrapes begun so far: the requests for the landing page.\<close>

definition scrapes :: "world \<Rightarrow> nat" where
  "scrapes w = length (filter (\<lambda>q. q = home_page) (requests w))"

definition started :: "call list \<Rightarrow> nat" where
  "started cs = length (filter (\<lambda>c. c \<noteq> NotStarted) cs)"

text \<open>
  Every call that begins during the schedule finds no unexpired credential in the cache
  at the moment it begins.
\<close>

fun begins_on_miss :: "event \<Rightarrow> call list \<times> world \<Rightarrow> bool" where
  "begins_on_miss (Run i) (cs, w) = (if i < length cs \<and> cs ! i = NotStarted then \<not> cache_hit (clock w) w else True)"
| "begins_on_miss (Wait d) (cs, w) = True"

fun all_observe_miss :: "event list \<Rightarrow> call list \<times> world \<Rightarrow> bool" where
  "all_observe_miss [] s = True"
| "all_observe_miss (e # es) s = (begins_on_miss e s \<and> all_observe_miss es (step e s))"

subsection \<open>The candidates of a scrape\<close>

text \<open>
  Two notions the properties of \<open>getClientId\<close> are stated with. The candidate scripts
  of a scrape begun in \<open>w\<close>: the script URLs of the landing page that contain the CDN
  domain, in the order of the page (none when the page cannot be fetched). And what a
  candidate yields when it is request number \<open>n\<close> of the run: the token its text
  matches, \<open>None\<close> when the fetch is rejected or the text has no match.
\<close>

definition page_scripts :: "world \<Rightarrow> string list" where
  "page_scripts w =
     (case outcome (upstream w (length (requests w)) home_page) of
        Rejects m \<Rightarrow> []
      | Resolves response \<Rightarrow> filter (\<lambda>u. str_includes u ''sndcdn.com'') (script_srcs (rtext response)))"

definition script_yield :: "world \<Rightarrow> nat \<Rightarrow> string \<Rightarrow> string option" where
  "script_yield w n u =
     (case outcome (upstream w n (Get u [])) of
        Rejects m \<Rightarrow> None
      | Resolves scriptResp \<Rightarrow> match_client_id (rtext scriptResp))"

section \<open>Example inputs\<close>

text \<open>
  A format with audio and video of a given height and URL, one without a URL, and one
  with video only. The rank of a format, for the examples, is its height.
\<close>

definition av :: "int \<Rightarrow> string \<Rightarrow> format" where
  "av h u = \<lparr>hasVideo = True, hasAudio = True, height = Some h, url = Some u,
     qualityLabel = JStr ''q'', container = JStr ''mp4''\<rparr>"

definition av_without_url :: "int \<Rightarrow> format" where
  "av_without_url h = \<lparr>hasVideo = True, hasAudio = True, height = Some h, url = None,
     qualityLabel = JStr ''q'', container = JStr ''mp4''\<rparr>"

definition video_only :: "int \<Rightarrow> string \<Rightarrow> format" where
  "video_only h u = \<lparr>hasVideo = True, hasAudio = False, height = Some h, url = Some u,
     qualityLabel = JStr ''q'', container = JStr ''webm''\<rparr>"

definition height_rank :: "format \<Rightarrow> int" where
  "height_rank f = (case height f of None \<Rightarrow> 0 | Some h \<Rightarrow> h)"

text \<open>The three formats of the specification's test, and a \<open>getInfo\<close> that returns a list.\<close>

definition three_heights :: "format list" where
  "three_heights = [av 1080 ''https://v.example.org/1080'', av 720 ''https://v.example.org/720'',
                    av 480 ''https://v.example.org/480'']"

definition info_with :: "format list \<Rightarrow> string \<Rightarrow> js_error + video_info" where
  "info_with fs u = Inr \<lparr>formats = fs, title = JStr ''Video''\<rparr>"

text \<open>A credential of the shape the scrape looks for, a track URL and a resolved track.\<close>

definition token :: string where
  "token = ''0123456789abcdefghijABCDEFGHIJ01''"

definition a_track_url :: string where
  "a_track_url = ''https://soundcloud.com/artist/song''"

definition track_json :: jsval where
  "track_json = JObj [(''id'', JNum 7), (''title'', JStr ''Song'')]"

definition json_reply :: "nat \<Rightarrow> jsval \<Rightarrow> fetch_result" where
  "json_reply code v = \<lparr>delay = 20, outcome = Resolves \<lparr>rstatus = code, rtext = [], rjson = Some v\<rparr>\<rparr>"

text \<open>
  Mocked upstreams: one that cannot be reached, one that answers every request with the
  same status and an empty object, and one that refuses the first request with 401 and
  answers every later one with the track.
\<close>

definition unreachable :: "nat \<Rightarrow> request \<Rightarrow> fetch_result" where
  "unreachable n req = \<lparr>delay = 0, outcome = Rejects ''fetch failed''\<rparr>"

definition always_status :: "nat \<Rightarrow> nat \<Rightarrow> request \<Rightarrow> fetch_result" where
  "always_status code n req = json_reply code (JObj [])"

definition unauthorized_once :: "nat \<Rightarrow> request \<Rightarrow> fetch_result" where
  "unauthorized_once n req = (if n = 0 then json_reply 401 (JObj []) else json_reply 200 track_json)"

text \<open>A worker that has just started, and one whose cache holds an unexpired credential.\<close>

definition empty_world :: "(nat \<Rightarrow> request \<Rightarrow> fetch_result) \<Rightarrow> world" where
  "empty_world up =
     \<lparr>cachedClientId = None, clientIdExpiry = 0, clock = 1000, upstream = up, requests = []\<rparr>"

definition cached_world :: "(nat \<Rightarrow> request \<Rightarrow> fetch_result) \<Rightarrow> world" where
  "cached_world up =
     \<lparr>cachedClientId = Some token, clientIdExpiry = 3601000, clock = 5000, upstream = up, requests = []\<rparr>"

text \<open>Incoming requests.\<close>

definition get_resolve :: http_request where
  "get_resolve = \<lparr>http_method = ''GET'', pathname = ''/resolve'', searchParams = [(''url'', a_track_url)]\<rparr>"

definition get_search_no_q :: http_request where
  "get_search_no_q = \<lparr>http_method = ''GET'', pathname = ''/search'', searchParams = [(''limit'', ''4'')]\<rparr>"

definition get_unknown :: http_request where
  "get_unknown = \<lparr>http_method = ''GET'', pathname = ''/tracks'', searchParams = []\<rparr>"

definition options_search :: http_request where
  "options_search = \<lparr>http_method = ''OPTIONS'', pathname = ''/search'', searchParams = []\<rparr>"

definition get_search_empty_q :: http_request where
  "get_search_empty_q = \<lparr>http_method = ''GET'', pathname = ''/search'', searchParams = [(''q'', [])]\<rparr>"

definition get_resolve_empty_url :: http_request where
  "get_resolve_empty_url = \<lparr>http_method = ''GET'', pathname = ''/resolve'', searchParams = [(''url'', [])]\<rparr>"

definition get_stream_empty_url :: http_request where
  "get_stream_empty_url = \<lparr>http_method = ''GET'', pathname = ''/stream'', searchParams = [(''url'', [])]\<rparr>"

definition options_stream_empty_url :: http_request where
  "options_stream_empty_url = \<lparr>http_method = ''OPTIONS'', pathname = ''/stream'', searchParams = [(''url'', [])]\<rparr>"

text \<open>The body of the 404 response: the error and the list of the endpoints.\<close>

definition not_found_body :: jsval where
  "not_found_body = JObj
     [(''error'', JStr ''Not found''),
      (''endpoints'', JArr [JStr ''/search?q=...'', JStr ''/resolve?url=...'',
                            JStr ''/stream?url=...'', JStr ''/health''])]"

text \<open>A search response of four tracks: the second has no \<open>user.username\<close>, the third no \<open>user\<close>, the fourth a \<open>user\<close> that is \<open>null\<close>.\<close>

definition four_tracks :: "jsval list" where
  "four_tracks =
     [JObj [(''id'', JNum 1), (''title'', JStr ''one''), (''permalink_url'', JStr ''https://soundcloud.com/a/one''),
            (''user'', JObj [(''username'', JStr ''a''), (''full_name'', JStr ''A'')])],
      JObj [(''id'', JNum 2), (''title'', JStr ''two''), (''permalink_url'', JStr ''https://soundcloud.com/b/two''),
            (''user'', JObj [(''full_name'', JStr ''B'')])],
      JObj [(''id'', JNum 3), (''title'', JStr ''three''), (''permalink_url'', JStr ''https://soundcloud.com/c/three'')],
      JObj [(''id'', JNum 4), (''title'', JStr ''four''), (''permalink_url'', JStr ''https://soundcloud.com/d/four''),
            (''duration'', JNum 1000), (''user'', JNull)]]"

definition search_upstream :: "nat \<Rightarrow> request \<Rightarrow> fetch_result" where
  "search_upstream n req = json_reply 200 (JObj [(''collection'', JArr four_tracks)])"

text \<open>The same four tracks sent with a status of the upstream's choice.\<close>

definition tracks_with_status :: "nat \<Rightarrow> nat \<Rightarrow> request \<Rightarrow> fetch_result" where
  "tracks_with_status code n req = json_reply code (JObj [(''collection'', JArr four_tracks)])"

text \<open>The entries \<open>searchTracks\<close> makes of the four tracks.\<close>

definition four_entries :: "jsval list" where
  "four_entries =
     [JObj [(''id'', JNum 1), (''title'', JStr ''one''), (''permalink_url'', JStr ''https://soundcloud.com/a/one''),
            (''duration'', JUndefined), (''artwork_url'', JUndefined),
            (''user'', JObj [(''username'', JStr ''a''), (''full_name'', JStr ''A'')]),
            (''media'', JUndefined)],
      JObj [(''id'', JNum 2), (''title'', JStr ''two''), (''permalink_url'', JStr ''https://soundcloud.com/b/two''),
            (''duration'', JUndefined), (''artwork_url'', JUndefined),
            (''user'', JObj [(''username'', JUndefined), (''full_name'', JStr ''B'')]),
            (''media'', JUndefined)],
      JObj [(''id'', JNum 3), (''title'', JStr ''three''), (''permalink_url'', JStr ''https://soundcloud.com/c/three''),
            (''duration'', JUndefined), (''artwork_url'', JUndefined),
            (''user'', JObj [(''username'', JUndefined), (''full_name'', JUndefined)]),
            (''media'', JUndefined)],
      JObj [(''id'', JNum 4), (''title'', JStr ''four''), (''permalink_url'', JStr ''https://soundcloud.com/d/four''),
            (''duration'', JNum 1000), (''artwork_url'', JUndefined),
            (''user'', JObj [(''username'', JUndefined), (''full_name'', JUndefined)]),
            (''media'', JUndefined)]]"

text \<open>Transcodings with and without a \<open>url\<close>, and a resolved track that has a list of them.\<close>

definition variant :: "string \<Rightarrow> string \<Rightarrow> jsval" where
  "variant protocol u = JObj [(''url'', JStr u), (''format'', JObj [(''protocol'', JStr protocol)])]"

definition variant_without_url :: "string \<Rightarrow> jsval" where
  "variant_without_url protocol = JObj [(''format'', JObj [(''protocol'', JStr protocol)])]"

definition track_with :: "jsval list \<Rightarrow> jsval" where
  "track_with ts = JObj [(''id'', JNum 7), (''media'', JObj [(''transcodings'', JArr ts)])]"

text \<open>
  A landing page with two scripts of the CDN and one of another host, a script that
  holds the credential, and an upstream that serves the page and that script and
  rejects every other request.
\<close>

definition page_html :: string where
  "page_html = ''<script crossorigin src=\"https://a-v2.sndcdn.com/assets/0-1a2b.js\"></script><script src=\"https://cdn.example.org/x.js\"></script><script crossorigin src=\"https://a-v2.sndcdn.com/assets/50-9f.js\"></script>''"

definition script_with_id :: string where
  "script_with_id = ''e.exports={client_id: \"0123456789abcdefghijABCDEFGHIJ01\",env:1}''"

definition text_reply :: "string \<Rightarrow> fetch_result" where
  "text_reply t = \<lparr>delay = 100, outcome = Resolves \<lparr>rstatus = 200, rtext = t, rjson = None\<rparr>\<rparr>"

definition cdn_upstream :: "nat \<Rightarrow> request \<Rightarrow> fetch_result" where
  "cdn_upstream n req =
     (if req = home_page then text_reply page_html
      else if req = Get ''https://a-v2.sndcdn.com/assets/50-9f.js'' [] then text_reply script_with_id
      else \<lparr>delay = 5, outcome = Rejects ''fetch failed''\<rparr>)"

text \<open>The worker after its first scrape against that upstream.\<close>

definition acquired_world :: world where
  "acquired_world = snd (getClientId (empty_world cdn_upstream))"

text \<open>
  Concurrent calls on a worker that has just started, and a schedule that lets two
  calls run in turn, one segment each.
\<close>

definition two_callers :: "call list \<times> world" where
  "two_callers = ([NotStarted, NotStarted], empty_world cdn_upstream)"

definition alternating :: "event list" where
  "alternating = [Run 0, Run 1, Run 0, Run 1, Run 0, Run 1, Run 0, Run 1]"

definition three_callers :: "call list \<times> world" where
  "three_callers = ([NotStarted, NotStarted, NotStarted], empty_world cdn_upstream)"

section \<open>Properties of the download service\<close>

lemma find_first:
  "xs = pre @ x # post \<Longrightarrow> P x \<Longrightarrow> \<forall>y\<in>set pre. \<not> P y \<Longrightarrow> find P xs = Some x"
  by (induction pre arbitrary: xs) auto

lemma js_le_Some: "js_le a (Some h) = (\<exists>k. a = Some k \<and> k \<le> h)"
  by (cases a) (simp_all add: js_le_def)

lemma parseInt_600: "parseInt ''600'' = Some 600"
  by (simp add: parseInt_def is_space_def is_digit_def in_range_def digit_value_def Let_def)

lemma parseInt_2000: "parseInt ''2000'' = Some 2000"
  by (simp add: parseInt_def is_space_def is_digit_def in_range_def digit_value_def Let_def)

lemma video_format_first:
  assumes q: "quality \<noteq> ''highest''" and p: "parseInt quality = Some h"
    and fs: "fs = pre @ f # post"
    and f: "hasVideo f" "hasAudio f" "height f = Some k" "k \<le> h"
    and pre: "\<forall>g\<in>set pre. \<not> (hasVideo g \<and> hasAudio g \<and> (\<exists>k. height g = Some k \<and> k \<le> h))"
  shows "video_format chooseFormat quality fs = Inr (Some f)"
proof -
  let ?P = "\<lambda>f. hasVideo f \<and> hasAudio f \<and> js_le (height f) (Some h)"
  have "?P f" using f by (simp add: js_le_Some)
  moreover have "\<forall>g\<in>set pre. \<not> ?P g" using pre by (simp add: js_le_Some)
  ultimately have "find ?P fs = Some f" using fs by (rule find_first[rotated])
  then show ?thesis using q p by (simp add: video_format_def)
qed

lemma video_format_fallback:
  assumes q: "quality \<noteq> ''highest''" and p: "parseInt quality = Some h"
    and none: "\<forall>g\<in>set fs. \<not> (hasVideo g \<and> hasAudio g \<and> (\<exists>k. height g = Some k \<and> k \<le> h))"
  shows "video_format chooseFormat quality fs = chooseFormat fs"
proof -
  have "find (\<lambda>f. hasVideo f \<and> hasAudio f \<and> js_le (height f) (Some h)) fs = None"
    using none by (simp add: find_None_iff js_le_Some)
  then show ?thesis using q p by (simp add: video_format_def)
qed

lemma first_highest_member: "first_highest rank b fs \<in> set (b # fs)"
  by (induction fs arbitrary: b) auto

lemma first_highest_max: "g \<in> set (b # fs) \<Longrightarrow> rank g \<le> rank (first_highest rank b fs)"
proof (induction fs arbitrary: b g)
  case Nil
  then show ?case by simp
next
  case (Cons f fs)
  let ?b = "if rank b < rank f then f else b"
  have b: "rank b \<le> rank (first_highest rank ?b fs)"
  proof -
    have "rank b \<le> rank ?b" by (simp add: less_imp_le)
    also have "rank ?b \<le> rank (first_highest rank ?b fs)" by (rule Cons.IH) simp
    finally show ?thesis .
  qed
  have f: "rank f \<le> rank (first_highest rank ?b fs)"
  proof -
    have "rank f \<le> rank ?b" by (simp add: not_less)
    also have "rank ?b \<le> rank (first_highest rank ?b fs)" by (rule Cons.IH) simp
    finally show ?thesis .
  qed
  from Cons.prems consider "g = b" | "g = f" | "g \<in> set fs" by auto
  then show ?case
  proof cases
    case 1
    with b show ?thesis by simp
  next
    case 2
    with f show ?thesis by simp
  next
    case 3
    then have "rank g \<le> rank (first_highest rank ?b fs)" by (intro Cons.IH) simp
    then show ?thesis by simp
  qed
qed

lemma choose_highest_contract: "highest_audio_video rank (choose_highest rank)"
  unfolding highest_audio_video_def
proof (intro allI impI)
  fix fs :: "format list"
  let ?av = "\<lambda>f. hasVideo f \<and> hasAudio f"
  assume "\<exists>g\<in>set fs. ?av g"
  then have "filter ?av fs \<noteq> []" by (simp add: filter_empty_conv)
  then obtain g gs where c: "filter ?av fs = g # gs" by (cases "filter ?av fs") auto
  let ?f = "first_highest rank g gs"
  have m: "?f \<in> set (filter ?av fs)" using first_highest_member[of rank g gs] c by simp
  have r: "\<forall>x\<in>set fs. ?av x \<longrightarrow> rank x \<le> rank ?f"
  proof (intro ballI impI)
    fix x assume "x \<in> set fs" and "?av x"
    then have "x \<in> set (g # gs)" using c[symmetric] by simp
    then show "rank x \<le> rank ?f" by (rule first_highest_max)
  qed
  have "choose_highest rank fs = Inr (Some ?f)" by (simp add: choose_highest_def c)
  with m r show "\<exists>f\<in>set fs. choose_highest rank fs = Inr (Some f) \<and> hasVideo f \<and> hasAudio f \<and>
           (\<forall>g\<in>set fs. hasVideo g \<and> hasAudio g \<longrightarrow> rank g \<le> rank f)"
    by auto
qed

lemma video_format_fallback_highest:
  assumes c: "highest_audio_video rank chooseFormat"
    and q: "quality \<noteq> ''highest''" and p: "parseInt quality = Some h"
    and none: "\<forall>g\<in>set fs. \<not> (hasVideo g \<and> hasAudio g \<and> (\<exists>k. height g = Some k \<and> k \<le> h))"
    and some: "\<exists>g\<in>set fs. hasVideo g \<and> hasAudio g"
  shows "\<exists>f\<in>set fs. video_format chooseFormat quality fs = Inr (Some f) \<and> hasVideo f \<and> hasAudio f \<and>
           (\<forall>g\<in>set fs. hasVideo g \<and> hasAudio g \<longrightarrow> rank g \<le> rank f)"
  using c some unfolding video_format_fallback[OF q p none] highest_audio_video_def by blast

lemma youtube_video_answer:
  assumes "u \<noteq> []" and "q \<noteq> []" and "getInfo u = Inr info"
    and "video_format chooseFormat q (formats info) = Inr (Some f)"
  shows "youtube_video getInfo chooseFormat (Some u) (Some q) =
     (case url f of
        None \<Rightarrow> ResJson 404 (JObj [(''error'', JStr ''No suitable format found'')])
      | Some fu \<Rightarrow>
          if fu = [] then ResJson 404 (JObj [(''error'', JStr ''No suitable format found'')])
          else ResJson 200 (JSON_stringify (JObj
                 [(''success'', JBool True), (''title'', title info), (''url'', JStr fu),
                  (''quality'', qualityLabel f), (''container'', container f)])))"
  using assms by (simp add: youtube_video_def)

text \<open>
  C5. With a \<open>quality\<close> parameter that \<open>parseInt\<close> reads as the height \<open>h\<close>, the format
  chosen is the first one of \<open>info.formats\<close>, in the order the upstream gave, that has
  audio and video and a height of at most \<open>h\<close>: formats without audio or without video,
  or without a height, are passed over. When no format fits, the choice is the library's
  (\<open>chooseFormat\<close>); for a library that keeps the contract \<open>highest_audio_video\<close> and a
  list that holds a format with audio and video, that is a format of the list with audio
  and video that none of the others outranks. In particular, with the heights 1080, 720
  and 480, all with audio and video, a request for 600 chooses the 480 entry and a
  request for 2000 chooses the 1080 entry. The handler answers with the chosen format:
  200 with its \<open>url\<close>, \<open>qualityLabel\<close> and \<open>container\<close> when it has a \<open>url\<close>, and 404
  when it has none.
\<close>

theorem video_format_target_height:
  "(quality \<noteq> ''highest'' \<and> parseInt quality = Some h \<longrightarrow>
      (fs = pre @ f # post \<and> hasVideo f \<and> hasAudio f \<and> (\<exists>k. height f = Some k \<and> k \<le> h) \<and>
       (\<forall>g\<in>set pre. \<not> (hasVideo g \<and> hasAudio g \<and> (\<exists>k. height g = Some k \<and> k \<le> h)))
         \<longrightarrow> video_format chooseFormat quality fs = Inr (Some f)) \<and>
      ((\<forall>g\<in>set fs. \<not> (hasVideo g \<and> hasAudio g \<and> (\<exists>k. height g = Some k \<and> k \<le> h)))
         \<longrightarrow> video_format chooseFormat quality fs = chooseFormat fs) \<and>
      (highest_audio_video rank chooseFormat \<and>
       (\<forall>g\<in>set fs. \<not> (hasVideo g \<and> hasAudio g \<and> (\<exists>k. height g = Some k \<and> k \<le> h))) \<and>
       (\<exists>g\<in>set fs. hasVideo g \<and> hasAudio g)
         \<longrightarrow> (\<exists>best\<in>set fs. video_format chooseFormat quality fs = Inr (Some best) \<and>
                hasVideo best \<and> hasAudio best \<and>
                (\<forall>g\<in>set fs. hasVideo g \<and> hasAudio g \<longrightarrow> rank g \<le> rank best)))) \<and>
   (hasVideo f1 \<and> hasAudio f1 \<and> height f1 = Some 1080 \<and>
    hasVideo f2 \<and> hasAudio f2 \<and> height f2 = Some 720 \<and>
    hasVideo f3 \<and> hasAudio f3 \<and> height f3 = Some 480 \<longrightarrow>
      video_format chooseFormat ''600'' [f1, f2, f3] = Inr (Some f3) \<and>
      video_format chooseFormat ''2000'' [f1, f2, f3] = Inr (Some f1)) \<and>
   (u \<noteq> [] \<and> q \<noteq> [] \<and> getInfo u = Inr info \<and>
    video_format chooseFormat q (formats info) = Inr (Some picked) \<longrightarrow>
      youtube_video getInfo chooseFormat (Some u) (Some q) =
        (case url picked of
           None \<Rightarrow> ResJson 404 (JObj [(''error'', JStr ''No suitable format found'')])
         | Some fu \<Rightarrow>
             if fu = [] then ResJson 404 (JObj [(''error'', JStr ''No suitable format found'')])
             else ResJson 200 (JSON_stringify (JObj
                    [(''success'', JBool True), (''title'', title info), (''url'', JStr fu),
                     (''quality'', qualityLabel picked), (''container'', container picked)]))))"
proof (intro conjI impI)
  assume "quality \<noteq> ''highest'' \<and> parseInt quality = Some h"
    and "fs = pre @ f # post \<and> hasVideo f \<and> hasAudio f \<and> (\<exists>k. height f = Some k \<and> k \<le> h) \<and>
       (\<forall>g\<in>set pre. \<not> (hasVideo g \<and> hasAudio g \<and> (\<exists>k. height g = Some k \<and> k \<le> h)))"
  then show "video_format chooseFormat quality fs = Inr (Some f)"
    using video_format_first[of quality h fs pre f post] by blast
next
  assume "quality \<noteq> ''highest'' \<and> parseInt quality = Some h"
    and "\<forall>g\<in>set fs. \<not> (hasVideo g \<and> hasAudio g \<and> (\<exists>k. height g = Some k \<and> k \<le> h))"
  then show "video_format chooseFormat quality fs = chooseFormat fs"
    using video_format_fallback[of quality h fs] by blast
next
  assume "quality \<noteq> ''highest'' \<and> parseInt quality = Some h"
    and "highest_audio_video rank chooseFormat \<and>
       (\<forall>g\<in>set fs. \<not> (hasVideo g \<and> hasAudio g \<and> (\<exists>k. height g = Some k \<and> k \<le> h))) \<and>
       (\<exists>g\<in>set fs. hasVideo g \<and> hasAudio g)"
  then show "\<exists>best\<in>set fs. video_format chooseFormat quality fs = Inr (Some best) \<and>
                hasVideo best \<and> hasAudio best \<and>
                (\<forall>g\<in>set fs. hasVideo g \<and> hasAudio g \<longrightarrow> rank g \<le> rank best)"
    using video_format_fallback_highest[of rank chooseFormat quality h fs] by blast
next
  assume a: "hasVideo f1 \<and> hasAudio f1 \<and> height f1 = Some 1080 \<and>
    hasVideo f2 \<and> hasAudio f2 \<and> height f2 = Some 720 \<and>
    hasVideo f3 \<and> hasAudio f3 \<and> height f3 = Some 480"
  show "video_format chooseFormat ''600'' [f1, f2, f3] = Inr (Some f3)"
    using a video_format_first[of "''600''" 600 "[f1, f2, f3]" "[f1, f2]" f3 "[]" 480]
    by (simp add: parseInt_600)
  show "video_format chooseFormat ''2000'' [f1, f2, f3] = Inr (Some f1)"
    using a video_format_first[of "''2000''" 2000 "[f1, f2, f3]" "[]" f1 "[f2, f3]" 1080]
    by (simp add: parseInt_2000)
next
  assume "u \<noteq> [] \<and> q \<noteq> [] \<and> getInfo u = Inr info \<and>
    video_format chooseFormat q (formats info) = Inr (Some picked)"
  then show "youtube_video getInfo chooseFormat (Some u) (Some q) =
        (case url picked of
           None \<Rightarrow> ResJson 404 (JObj [(''error'', JStr ''No suitable format found'')])
         | Some fu \<Rightarrow>
             if fu = [] then ResJson 404 (JObj [(''error'', JStr ''No suitable format found'')])
             else ResJson 200 (JSON_stringify (JObj
                    [(''success'', JBool True), (''title'', title info), (''url'', JStr fu),
                     (''quality'', qualityLabel picked), (''container'', container picked)])))"
    using youtube_video_answer[of u q getInfo info chooseFormat picked] by blast
qed

text \<open>
  The heights 1080, 720, 480 with the chooser that ranks by height: 600 chooses 480,
  2000 chooses 1080, and 300, which no format fits, falls back to 1080. The handler
  answers the request for 600 with the URL of the 480 entry, and answers 404 when the
  format chosen has no URL.
\<close>

theorem video_format_target_height_witness:
  "video_format (choose_highest height_rank) ''600'' three_heights =
     Inr (Some (av 480 ''https://v.example.org/480'')) \<and>
   video_format (choose_highest height_rank) ''2000'' three_heights =
     Inr (Some (av 1080 ''https://v.example.org/1080'')) \<and>
   video_format (choose_highest height_rank) ''300'' three_heights =
     Inr (Some (av 1080 ''https://v.example.org/1080'')) \<and>
   youtube_video (info_with three_heights) (choose_highest height_rank) (Some ''https://youtu.be/x'') (Some ''600'') =
     ResJson 200 (JObj [(''success'', JBool True), (''title'', JStr ''Video''),
                        (''url'', JStr ''https://v.example.org/480''),
                        (''quality'', JStr ''q''), (''container'', JStr ''mp4'')]) \<and>
   youtube_video (info_with [av_without_url 480, av 360 ''https://v.example.org/360''])
       (choose_highest height_rank) (Some ''https://youtu.be/x'') (Some ''600'') =
     ResJson 404 (JObj [(''error'', JStr ''No suitable format found'')])"
proof -
  let ?ch = "choose_highest height_rank"
  let ?a = "av 1080 ''https://v.example.org/1080''"
  let ?b = "av 720 ''https://v.example.org/720''"
  let ?c = "av 480 ''https://v.example.org/480''"
  let ?n = "av_without_url 480"
  let ?d = "av 360 ''https://v.example.org/360''"
  have p300: "parseInt ''300'' = Some 300"
    by (simp add: parseInt_def is_space_def is_digit_def in_range_def digit_value_def Let_def)
  have hs: "hasVideo ?a \<and> hasAudio ?a \<and> height ?a = Some 1080 \<and>
    hasVideo ?b \<and> hasAudio ?b \<and> height ?b = Some 720 \<and>
    hasVideo ?c \<and> hasAudio ?c \<and> height ?c = Some 480"
    by (simp add: av_def)
  have ex: "video_format ?ch ''600'' [?a, ?b, ?c] = Inr (Some ?c) \<and>
      video_format ?ch ''2000'' [?a, ?b, ?c] = Inr (Some ?a)"
    using video_format_target_height[where chooseFormat = ?ch and ?f1.0 = ?a and ?f2.0 = ?b and ?f3.0 = ?c,
        THEN conjunct2, THEN conjunct1] hs
    by (rule mp)
  then have 1: "video_format ?ch ''600'' [?a, ?b, ?c] = Inr (Some ?c)"
    and 2: "video_format ?ch ''2000'' [?a, ?b, ?c] = Inr (Some ?a)"
    by simp_all
  have none: "\<forall>g\<in>set [?a, ?b, ?c]. \<not> (hasVideo g \<and> hasAudio g \<and> (\<exists>k. height g = Some k \<and> k \<le> 300))"
    by (simp add: av_def)
  have some: "\<exists>g\<in>set [?a, ?b, ?c]. hasVideo g \<and> hasAudio g" by (simp add: av_def)
  have q300: "''300'' \<noteq> ''highest''" by simp
  have "\<exists>best\<in>set [?a, ?b, ?c]. video_format ?ch ''300'' [?a, ?b, ?c] = Inr (Some best) \<and>
      hasVideo best \<and> hasAudio best \<and>
      (\<forall>g\<in>set [?a, ?b, ?c]. hasVideo g \<and> hasAudio g \<longrightarrow> height_rank g \<le> height_rank best)"
    using video_format_target_height[where quality = "''300''" and h = 300
        and fs = "[?a, ?b, ?c]" and pre = "[]" and f = ?a and post = "[]"
        and chooseFormat = ?ch and rank = height_rank, THEN conjunct1]
      p300 q300 none some choose_highest_contract[of height_rank]
    by blast
  then obtain best where b: "best \<in> set [?a, ?b, ?c]"
      "video_format ?ch ''300'' [?a, ?b, ?c] = Inr (Some best)"
      "\<forall>g\<in>set [?a, ?b, ?c]. hasVideo g \<and> hasAudio g \<longrightarrow> height_rank g \<le> height_rank best"
    by blast
  from b(3) have "height_rank ?a \<le> height_rank best" by (simp add: av_def)
  with b(1) have "best = ?a" by (auto simp: height_rank_def av_def)
  with b(2) have 3: "video_format ?ch ''300'' [?a, ?b, ?c] = Inr (Some ?a)" by simp
  have 4: "youtube_video (info_with [?a, ?b, ?c]) ?ch (Some ''https://youtu.be/x'') (Some ''600'') =
     ResJson 200 (JObj [(''success'', JBool True), (''title'', JStr ''Video''),
                        (''url'', JStr ''https://v.example.org/480''),
                        (''quality'', JStr ''q''), (''container'', JStr ''mp4'')])"
    using video_format_target_height[where chooseFormat = ?ch and u = "''https://youtu.be/x''" and q = "''600''"
        and getInfo = "info_with [?a, ?b, ?c]"
        and info = "\<lparr>formats = [?a, ?b, ?c], title = JStr ''Video''\<rparr>"
        and picked = ?c, THEN conjunct2, THEN conjunct2] 1
    by (simp add: info_with_def av_def)
  have f: "video_format ?ch ''600'' [?n, ?d] = Inr (Some ?n)"
    using video_format_target_height[where quality = "''600''" and h = 600
        and fs = "[?n, ?d]" and pre = "[]" and f = ?n and post = "[?d]"
        and chooseFormat = ?ch and rank = height_rank, THEN conjunct1]
    by (simp add: parseInt_600 av_without_url_def)
  have 5: "youtube_video (info_with [?n, ?d]) ?ch (Some ''https://youtu.be/x'') (Some ''600'') =
     ResJson 404 (JObj [(''error'', JStr ''No suitable format found'')])"
    using video_format_target_height[where chooseFormat = ?ch and u = "''https://youtu.be/x''" and q = "''600''"
        and getInfo = "info_with [?n, ?d]"
        and info = "\<lparr>formats = [?n, ?d], title = JStr ''Video''\<rparr>"
        and picked = ?n, THEN conjunct2, THEN conjunct2] f
    by (simp add: info_with_def av_without_url_def)
  from 1 2 3 4 5 show ?thesis by (simp add: three_heights_def)
qed

section \<open>Properties of the worker\<close>

subsection \<open>What a request to the upstream changes\<close>

lemma fetch_requests: "requests (snd (fetch req w)) = requests w @ [req]"
  by (simp add: fetch_def issue_def arrive_def)

lemma fetch_cache:
  "cachedClientId (snd (fetch req w)) = cachedClientId w"
  "clientIdExpiry (snd (fetch req w)) = clientIdExpiry w"
  "upstream (snd (fetch req w)) = upstream w"
  by (simp_all add: fetch_def issue_def arrive_def)

lemma fetch_outcome: "fst (fetch req w) = outcome (upstream w (length (requests w)) req)"
  by (simp add: fetch_def issue_def)

lemma getClientId_cached_world: "getClientId (cached_world up) = (Inr token, cached_world up)"
  by (simp add: getClientId_def cached_world_def token_def)

subsection \<open>\<open>resolveUrl\<close> on a status that is not 2xx\<close>

lemma resolveUrl_not_ok:
  assumes g: "getClientId w = (Inr clientId, w1)"
    and r: "outcome (upstream w1 (length (requests w1))
              (Get ''https://api-v2.soundcloud.com/resolve'' [(''url'', trackUrl), (''client_id'', clientId)]))
            = Resolves response"
    and n: "\<not> ok response"
  shows "resolveUrl trackUrl w =
           (Inl (Error (''SoundCloud resolve error: '' @ show_nat (rstatus response))),
            snd (fetch (Get ''https://api-v2.soundcloud.com/resolve'' [(''url'', trackUrl), (''client_id'', clientId)]) w1))"
proof -
  let ?req = "Get ''https://api-v2.soundcloud.com/resolve'' [(''url'', trackUrl), (''client_id'', clientId)]"
  have "fst (fetch ?req w1) = Resolves response" using r by (simp add: fetch_outcome)
  then obtain w2 where f: "fetch ?req w1 = (Resolves response, w2)" by (cases "fetch ?req w1") simp
  show ?thesis using g f n by (simp add: resolveUrl_def)
qed

lemma resolveUrl_always_status:
  assumes "\<not> (200 \<le> code \<and> code \<le> 299)"
  shows "resolveUrl a_track_url (cached_world (always_status code)) =
     (Inl (Error (''SoundCloud resolve error: '' @ show_nat code)),
      snd (fetch (Get ''https://api-v2.soundcloud.com/resolve'' [(''url'', a_track_url), (''client_id'', token)])
             (cached_world (always_status code))))"
proof -
  let ?req = "Get ''https://api-v2.soundcloud.com/resolve'' [(''url'', a_track_url), (''client_id'', token)]"
  let ?w = "cached_world (always_status code)"
  have r: "outcome (upstream ?w (length (requests ?w)) ?req)
      = Resolves \<lparr>rstatus = code, rtext = [], rjson = Some (JObj [])\<rparr>"
    by (simp add: cached_world_def always_status_def json_reply_def)
  have n: "\<not> ok \<lparr>rstatus = code, rtext = [], rjson = Some (JObj [])\<rparr>"
    using assms by (simp add: ok_def)
  show ?thesis using resolveUrl_not_ok[OF getClientId_cached_world r n] by simp
qed

text \<open>
  C2 (as the code has it). \<open>resolveUrl\<close> has no retry and never touches the cache on a
  failure: when the credential is there and the upstream answers the resolve request
  with a status that is not 2xx, 401 included, the call throws
  \<open>Error('SoundCloud resolve error: <status>')\<close> at once. The request has been sent
  exactly once, and \<open>cachedClientId\<close> and \<open>clientIdExpiry\<close> are what they were before
  the request.
\<close>

theorem resolveUrl_no_retry:
  "getClientId w = (Inr clientId, w1) \<and>
   outcome (upstream w1 (length (requests w1))
      (Get ''https://api-v2.soundcloud.com/resolve'' [(''url'', trackUrl), (''client_id'', clientId)]))
     = Resolves response \<and>
   \<not> ok response \<longrightarrow>
     fst (resolveUrl trackUrl w) = Inl (Error (''SoundCloud resolve error: '' @ show_nat (rstatus response))) \<and>
     requests (snd (resolveUrl trackUrl w)) =
       requests w1 @ [Get ''https://api-v2.soundcloud.com/resolve'' [(''url'', trackUrl), (''client_id'', clientId)]] \<and>
     cachedClientId (snd (resolveUrl trackUrl w)) = cachedClientId w1 \<and>
     clientIdExpiry (snd (resolveUrl trackUrl w)) = clientIdExpiry w1"
  by (auto simp: resolveUrl_not_ok fetch_requests fetch_cache)

text \<open>An upstream that always answers 401: one request, the error, the credential kept.\<close>

theorem resolveUrl_no_retry_witness:
  "fst (resolveUrl a_track_url (cached_world (always_status 401))) = Inl (Error ''SoundCloud resolve error: 401'') \<and>
   requests (snd (resolveUrl a_track_url (cached_world (always_status 401)))) =
     [Get ''https://api-v2.soundcloud.com/resolve'' [(''url'', a_track_url), (''client_id'', token)]] \<and>
   cachedClientId (snd (resolveUrl a_track_url (cached_world (always_status 401)))) = Some token"
proof -
  let ?req = "Get ''https://api-v2.soundcloud.com/resolve'' [(''url'', a_track_url), (''client_id'', token)]"
  let ?w = "cached_world (always_status 401)"
  have r: "outcome (upstream ?w (length (requests ?w)) ?req)
      = Resolves \<lparr>rstatus = 401, rtext = [], rjson = Some (JObj [])\<rparr>"
    by (simp add: cached_world_def always_status_def json_reply_def)
  have n: "\<not> ok \<lparr>rstatus = 401, rtext = [], rjson = Some (JObj [])\<rparr>"
    by (simp add: ok_def)
  have s: "show_nat 401 = ''401''" by code_simp
  from resolveUrl_no_retry[of ?w token ?w a_track_url "\<lparr>rstatus = 401, rtext = [], rjson = Some (JObj [])\<rparr>"]
    getClientId_cached_world r n s
  show ?thesis by (simp add: cached_world_def)
qed

text \<open>
  The upstream of the specification's test: 401 once, then 200. The claim has the
  resolver invalidate the credential, ask again and succeed; the code throws after the
  one request, the credential still cached.
\<close>

theorem resolveUrl_401_then_200:
  "fst (resolveUrl a_track_url (cached_world unauthorized_once)) = Inl (Error ''SoundCloud resolve error: 401'') \<and>
   requests (snd (resolveUrl a_track_url (cached_world unauthorized_once))) =
     [Get ''https://api-v2.soundcloud.com/resolve'' [(''url'', a_track_url), (''client_id'', token)]] \<and>
   cachedClientId (snd (resolveUrl a_track_url (cached_world unauthorized_once))) = Some token"
proof -
  let ?req = "Get ''https://api-v2.soundcloud.com/resolve'' [(''url'', a_track_url), (''client_id'', token)]"
  let ?w = "cached_world unauthorized_once"
  have r: "outcome (upstream ?w (length (requests ?w)) ?req)
      = Resolves \<lparr>rstatus = 401, rtext = [], rjson = Some (JObj [])\<rparr>"
    by (simp add: cached_world_def unauthorized_once_def json_reply_def)
  have n: "\<not> ok \<lparr>rstatus = 401, rtext = [], rjson = Some (JObj [])\<rparr>"
    by (simp add: ok_def)
  have s: "show_nat 401 = ''401''" by code_simp
  have "resolveUrl a_track_url ?w = (Inl (Error (''SoundCloud resolve error: '' @ show_nat 401)), snd (fetch ?req ?w))"
    using resolveUrl_not_ok[OF getClientId_cached_world r n] by simp
  then show ?thesis
    by (simp add: s fetch_requests fetch_cache) (simp add: cached_world_def)
qed

subsection \<open>The gateway\<close>

lemma catch_500_headers: "headers (fst (catch_500 rw)) = corsHeaders"
  by (cases rw; cases "fst rw") (simp_all add: catch_500_def json_response_def)

lemma handle_fetch_headers: "headers (fst (handle_fetch request w)) = corsHeaders"
  by (simp add: handle_fetch_def Let_def catch_500_headers json_response_def missing_parameter_def
      split: option.splits)

lemma handle_fetch_resolve:
  assumes "http_method request \<noteq> ''OPTIONS''" and "pathname request = ''/resolve''"
    and "map_of (searchParams request) ''url'' = Some trackUrl" and "trackUrl \<noteq> []"
  shows "handle_fetch request w =
     catch_500 (case resolveUrl trackUrl w of
                  (Inl e, w1) \<Rightarrow> (Inl e, w1)
                | (Inr track, w1) \<Rightarrow> (Inr (JObj [(''track'', track)]), w1))"
  using assms by (simp add: handle_fetch_def Let_def)

lemma resolveUrl_ok:
  assumes g: "getClientId w = (Inr clientId, w1)"
    and r: "outcome (upstream w1 (length (requests w1))
              (Get ''https://api-v2.soundcloud.com/resolve'' [(''url'', trackUrl), (''client_id'', clientId)]))
            = Resolves response"
    and n: "ok response" and j: "rjson response = Some track"
  shows "fst (resolveUrl trackUrl w) = Inr track"
proof -
  let ?req = "Get ''https://api-v2.soundcloud.com/resolve'' [(''url'', trackUrl), (''client_id'', clientId)]"
  have "fst (fetch ?req w1) = Resolves response" using r by (simp add: fetch_outcome)
  then obtain w2 where f: "fetch ?req w1 = (Resolves response, w2)" by (cases "fetch ?req w1") simp
  show ?thesis using g f n j by (simp add: resolveUrl_def)
qed

text \<open>
  C6 (as the code has it). The code has one kind of error and one status for it. For a
  request to \<open>/resolve\<close> (other than \<open>OPTIONS\<close>) with a \<open>url\<close>, once the credential is
  there: a status that is not 2xx, 404 included, makes \<open>resolveUrl\<close> throw
  \<open>Error('SoundCloud resolve error: <status>')\<close>, and the gateway answers 500 with that
  message; a 2xx answer is passed on with status 200 whatever its JSON body is, an empty
  object included.
\<close>

theorem resolve_not_found_is_500:
  "http_method request \<noteq> ''OPTIONS'' \<and> pathname request = ''/resolve'' \<and>
   map_of (searchParams request) ''url'' = Some trackUrl \<and> trackUrl \<noteq> [] \<and>
   getClientId w = (Inr clientId, w1) \<and>
   outcome (upstream w1 (length (requests w1))
      (Get ''https://api-v2.soundcloud.com/resolve'' [(''url'', trackUrl), (''client_id'', clientId)]))
     = Resolves response \<longrightarrow>
     (\<not> ok response \<longrightarrow>
        fst (resolveUrl trackUrl w) = Inl (Error (''SoundCloud resolve error: '' @ show_nat (rstatus response))) \<and>
        fst (handle_fetch request w) =
          \<lparr>status = 500, headers = corsHeaders,
            body = Some (JObj [(''error'', JStr (''SoundCloud resolve error: '' @ show_nat (rstatus response)))])\<rparr>) \<and>
     (ok response \<and> rjson response = Some track \<longrightarrow>
        fst (handle_fetch request w) =
          \<lparr>status = 200, headers = corsHeaders, body = Some (JSON_stringify (JObj [(''track'', track)]))\<rparr>)"
proof (intro impI conjI)
  assume a: "http_method request \<noteq> ''OPTIONS'' \<and> pathname request = ''/resolve'' \<and>
   map_of (searchParams request) ''url'' = Some trackUrl \<and> trackUrl \<noteq> [] \<and>
   getClientId w = (Inr clientId, w1) \<and>
   outcome (upstream w1 (length (requests w1))
      (Get ''https://api-v2.soundcloud.com/resolve'' [(''url'', trackUrl), (''client_id'', clientId)]))
     = Resolves response"
  then have h: "handle_fetch request w =
     catch_500 (case resolveUrl trackUrl w of
                  (Inl e, w1) \<Rightarrow> (Inl e, w1)
                | (Inr track, w1) \<Rightarrow> (Inr (JObj [(''track'', track)]), w1))"
    by (simp add: handle_fetch_resolve)
  {
    assume n: "\<not> ok response"
    with a have r: "resolveUrl trackUrl w =
           (Inl (Error (''SoundCloud resolve error: '' @ show_nat (rstatus response))),
            snd (fetch (Get ''https://api-v2.soundcloud.com/resolve'' [(''url'', trackUrl), (''client_id'', clientId)]) w1))"
      by (simp add: resolveUrl_not_ok)
    then show "fst (resolveUrl trackUrl w) = Inl (Error (''SoundCloud resolve error: '' @ show_nat (rstatus response)))"
      by simp
    from r show "fst (handle_fetch request w) =
          \<lparr>status = 500, headers = corsHeaders,
            body = Some (JObj [(''error'', JStr (''SoundCloud resolve error: '' @ show_nat (rstatus response)))])\<rparr>"
      by (simp add: h catch_500_def json_response_def)
  }
  {
    assume "ok response \<and> rjson response = Some track"
    with a have "fst (resolveUrl trackUrl w) = Inr track"
      using resolveUrl_ok[of w clientId w1 trackUrl response track] by simp
    then obtain w2 where "resolveUrl trackUrl w = (Inr track, w2)"
      by (cases "resolveUrl trackUrl w") simp
    then show "fst (handle_fetch request w) =
          \<lparr>status = 200, headers = corsHeaders, body = Some (JSON_stringify (JObj [(''track'', track)]))\<rparr>"
      by (simp add: h catch_500_def json_response_def)
  }
qed

text \<open>An upstream that answers the resolve request with 403: the gateway answers 500.\<close>

theorem resolve_not_found_is_500_witness:
  "fst (handle_fetch get_resolve (cached_world (always_status 403))) =
     \<lparr>status = 500, headers = corsHeaders,
       body = Some (JObj [(''error'', JStr ''SoundCloud resolve error: 403'')])\<rparr>"
proof -
  let ?req = "Get ''https://api-v2.soundcloud.com/resolve'' [(''url'', a_track_url), (''client_id'', token)]"
  let ?w = "cached_world (always_status 403)"
  let ?r = "\<lparr>rstatus = 403, rtext = [], rjson = Some (JObj [])\<rparr>"
  have r: "outcome (upstream ?w (length (requests ?w)) ?req) = Resolves ?r"
    by (simp add: cached_world_def always_status_def json_reply_def)
  have n: "\<not> ok ?r" by (simp add: ok_def)
  have s: "show_nat 403 = ''403''" by code_simp
  have q: "http_method get_resolve \<noteq> ''OPTIONS'' \<and> pathname get_resolve = ''/resolve'' \<and>
      map_of (searchParams get_resolve) ''url'' = Some a_track_url \<and> a_track_url \<noteq> []"
    by (simp add: get_resolve_def a_track_url_def)
  from resolve_not_found_is_500[of get_resolve a_track_url ?w token ?w ?r] q getClientId_cached_world r n s
  show ?thesis by simp
qed

text \<open>
  An upstream that answers the resolve request with 404. The claim has the gateway
  answer 404; the code answers 500.
\<close>

theorem resolve_404_answers_500:
  "fst (resolveUrl a_track_url (cached_world (always_status 404))) = Inl (Error ''SoundCloud resolve error: 404'') \<and>
   status (fst (handle_fetch get_resolve (cached_world (always_status 404)))) = 500 \<and>
   status (fst (handle_fetch get_resolve (cached_world (always_status 404)))) \<noteq> 404"
proof -
  have s: "show_nat 404 = ''404''" by code_simp
  have q: "http_method get_resolve \<noteq> ''OPTIONS''" "pathname get_resolve = ''/resolve''"
      "map_of (searchParams get_resolve) ''url'' = Some a_track_url" "a_track_url \<noteq> []"
    by (simp_all add: get_resolve_def a_track_url_def)
  have r: "resolveUrl a_track_url (cached_world (always_status 404)) =
     (Inl (Error ''SoundCloud resolve error: 404''),
      snd (fetch (Get ''https://api-v2.soundcloud.com/resolve'' [(''url'', a_track_url), (''client_id'', token)])
             (cached_world (always_status 404))))"
    using resolveUrl_always_status[of 404] by (simp add: s)
  show ?thesis
    by (simp add: handle_fetch_resolve[OF q] r catch_500_def json_response_def)
qed

lemma stringify_not_found: "JSON_stringify not_found_body = not_found_body"
  by (simp add: not_found_body_def)

text \<open>
  C8 (as the code has it). The handler answers an \<open>OPTIONS\<close> request first, whatever
  its path and parameters: status 200, no body. For every other request: to \<open>/search\<close>
  without a \<open>q\<close> parameter the answer is 400 with the body
  \<open>{error: "Missing query parameter: q"}\<close>, and to a path that is none of \<open>/health\<close>,
  \<open>/search\<close>, \<open>/resolve\<close>, \<open>/stream\<close> the answer is 404 with the body that lists the
  endpoints; neither sends anything upstream. Every response of the handler carries the
  cross-origin headers.
\<close>

theorem gateway_errors:
  "(http_method request \<noteq> ''OPTIONS'' \<and> pathname request = ''/search'' \<and>
      map_of (searchParams request) ''q'' = None \<longrightarrow>
        handle_fetch request w =
          (\<lparr>status = 400, headers = corsHeaders,
            body = Some (JObj [(''error'', JStr ''Missing query parameter: q'')])\<rparr>, w)) \<and>
   (http_method request \<noteq> ''OPTIONS'' \<and>
      pathname request \<notin> {''/health'', ''/search'', ''/resolve'', ''/stream''} \<longrightarrow>
        handle_fetch request w = (\<lparr>status = 404, headers = corsHeaders, body = Some not_found_body\<rparr>, w)) \<and>
   (http_method request = ''OPTIONS'' \<longrightarrow>
        handle_fetch request w = (\<lparr>status = 200, headers = corsHeaders, body = None\<rparr>, w)) \<and>
   headers (fst (handle_fetch request w)) = corsHeaders"
proof (intro conjI impI)
  assume "http_method request \<noteq> ''OPTIONS'' \<and> pathname request = ''/search'' \<and>
      map_of (searchParams request) ''q'' = None"
  then show "handle_fetch request w =
          (\<lparr>status = 400, headers = corsHeaders,
            body = Some (JObj [(''error'', JStr ''Missing query parameter: q'')])\<rparr>, w)"
    by (simp add: handle_fetch_def Let_def missing_parameter_def json_response_def)
next
  assume "http_method request \<noteq> ''OPTIONS'' \<and>
      pathname request \<notin> {''/health'', ''/search'', ''/resolve'', ''/stream''}"
  then show "handle_fetch request w = (\<lparr>status = 404, headers = corsHeaders, body = Some not_found_body\<rparr>, w)"
    using stringify_not_found
    by (simp add: handle_fetch_def Let_def json_response_def not_found_body_def)
next
  assume "http_method request = ''OPTIONS''"
  then show "handle_fetch request w = (\<lparr>status = 200, headers = corsHeaders, body = None\<rparr>, w)"
    by (simp add: handle_fetch_def Let_def)
next
  show "headers (fst (handle_fetch request w)) = corsHeaders"
    by (rule handle_fetch_headers)
qed

text \<open>\<open>GET /search?limit=4\<close> is answered 400 and \<open>GET /tracks\<close> 404, both with the headers.\<close>

theorem gateway_errors_witness:
  "handle_fetch get_search_no_q (empty_world unreachable) =
     (\<lparr>status = 400, headers = corsHeaders,
       body = Some (JObj [(''error'', JStr ''Missing query parameter: q'')])\<rparr>, empty_world unreachable) \<and>
   handle_fetch get_unknown (empty_world unreachable) =
     (\<lparr>status = 404, headers = corsHeaders, body = Some not_found_body\<rparr>, empty_world unreachable)"
proof -
  have a: "http_method get_search_no_q \<noteq> ''OPTIONS'' \<and> pathname get_search_no_q = ''/search'' \<and>
      map_of (searchParams get_search_no_q) ''q'' = None"
    by (simp add: get_search_no_q_def)
  have b: "http_method get_unknown \<noteq> ''OPTIONS'' \<and>
      pathname get_unknown \<notin> {''/health'', ''/search'', ''/resolve'', ''/stream''}"
    by (simp add: get_unknown_def)
  from gateway_errors[of get_search_no_q "empty_world unreachable"] a
    gateway_errors[of get_unknown "empty_world unreachable"] b
  show ?thesis by simp
qed

text \<open>
  \<open>OPTIONS /search\<close> is a request to \<open>/search\<close> without a \<open>q\<close> parameter, and the
  answer is 200 with no body.
\<close>

theorem options_search_answers_200:
  "pathname options_search = ''/search'' \<and> map_of (searchParams options_search) ''q'' = None \<and>
   handle_fetch options_search (empty_world unreachable) =
     (\<lparr>status = 200, headers = corsHeaders, body = None\<rparr>, empty_world unreachable) \<and>
   status (fst (handle_fetch options_search (empty_world unreachable))) \<noteq> 400"
  by (simp add: options_search_def handle_fetch_def Let_def)

text \<open>
  C10 (as the code has it). For every request other than \<open>OPTIONS\<close> to \<open>/search\<close>,
  \<open>/resolve\<close> or \<open>/stream\<close> whose required parameter (\<open>q\<close> for \<open>/search\<close>, \<open>url\<close> for
  the other two) is there with the empty string as its value, the answer is the 400
  response of the missing parameter, and nothing is sent upstream: the state, with its
  log of requests, is unchanged. An \<open>OPTIONS\<close> request is answered 200 before the
  parameters are looked at.
\<close>

theorem empty_parameter_is_missing:
  "(http_method request \<noteq> ''OPTIONS'' \<and> pathname request = ''/search'' \<and>
      map_of (searchParams request) ''q'' = Some [] \<longrightarrow>
        handle_fetch request w =
          (\<lparr>status = 400, headers = corsHeaders,
            body = Some (JObj [(''error'', JStr ''Missing query parameter: q'')])\<rparr>, w)) \<and>
   (http_method request \<noteq> ''OPTIONS'' \<and> pathname request \<in> {''/resolve'', ''/stream''} \<and>
      map_of (searchParams request) ''url'' = Some [] \<longrightarrow>
        handle_fetch request w =
          (\<lparr>status = 400, headers = corsHeaders,
            body = Some (JObj [(''error'', JStr ''Missing query parameter: url'')])\<rparr>, w)) \<and>
   (http_method request = ''OPTIONS'' \<longrightarrow>
        handle_fetch request w = (\<lparr>status = 200, headers = corsHeaders, body = None\<rparr>, w))"
proof (intro conjI impI)
  assume "http_method request \<noteq> ''OPTIONS'' \<and> pathname request = ''/search'' \<and>
      map_of (searchParams request) ''q'' = Some []"
  then show "handle_fetch request w =
          (\<lparr>status = 400, headers = corsHeaders,
            body = Some (JObj [(''error'', JStr ''Missing query parameter: q'')])\<rparr>, w)"
    by (simp add: handle_fetch_def Let_def missing_parameter_def json_response_def)
next
  assume "http_method request \<noteq> ''OPTIONS'' \<and> pathname request \<in> {''/resolve'', ''/stream''} \<and>
      map_of (searchParams request) ''url'' = Some []"
  then show "handle_fetch request w =
          (\<lparr>status = 400, headers = corsHeaders,
            body = Some (JObj [(''error'', JStr ''Missing query parameter: url'')])\<rparr>, w)"
    by (auto simp: handle_fetch_def Let_def missing_parameter_def json_response_def)
next
  assume "http_method request = ''OPTIONS''"
  then show "handle_fetch request w = (\<lparr>status = 200, headers = corsHeaders, body = None\<rparr>, w)"
    by (simp add: handle_fetch_def Let_def)
qed

text \<open>\<open>GET /search?q=\<close>, \<open>GET /resolve?url=\<close> and \<open>GET /stream?url=\<close> are answered 400.\<close>

theorem empty_parameter_is_missing_witness:
  "handle_fetch get_search_empty_q (empty_world unreachable) =
     (\<lparr>status = 400, headers = corsHeaders,
       body = Some (JObj [(''error'', JStr ''Missing query parameter: q'')])\<rparr>, empty_world unreachable) \<and>
   handle_fetch get_resolve_empty_url (empty_world unreachable) =
     (\<lparr>status = 400, headers = corsHeaders,
       body = Some (JObj [(''error'', JStr ''Missing query parameter: url'')])\<rparr>, empty_world unreachable) \<and>
   handle_fetch get_stream_empty_url (empty_world unreachable) =
     (\<lparr>status = 400, headers = corsHeaders,
       body = Some (JObj [(''error'', JStr ''Missing query parameter: url'')])\<rparr>, empty_world unreachable)"
proof -
  have a: "http_method get_search_empty_q \<noteq> ''OPTIONS'' \<and> pathname get_search_empty_q = ''/search'' \<and>
      map_of (searchParams get_search_empty_q) ''q'' = Some []"
    by (simp add: get_search_empty_q_def)
  have b: "http_method get_resolve_empty_url \<noteq> ''OPTIONS'' \<and>
      pathname get_resolve_empty_url \<in> {''/resolve'', ''/stream''} \<and>
      map_of (searchParams get_resolve_empty_url) ''url'' = Some []"
    by (simp add: get_resolve_empty_url_def)
  have c: "http_method get_stream_empty_url \<noteq> ''OPTIONS'' \<and>
      pathname get_stream_empty_url \<in> {''/resolve'', ''/stream''} \<and>
      map_of (searchParams get_stream_empty_url) ''url'' = Some []"
    by (simp add: get_stream_empty_url_def)
  from empty_parameter_is_missing[of get_search_empty_q "empty_world unreachable"] a
    empty_parameter_is_missing[of get_resolve_empty_url "empty_world unreachable"] b
    empty_parameter_is_missing[of get_stream_empty_url "empty_world unreachable"] c
  show ?thesis by blast
qed

text \<open>
  \<open>OPTIONS /stream?url=\<close> is a request to \<open>/stream\<close> whose \<open>url\<close> is the empty string,
  and the answer is 200 with no body.
\<close>

theorem options_stream_answers_200:
  "pathname options_stream_empty_url = ''/stream'' \<and>
   map_of (searchParams options_stream_empty_url) ''url'' = Some [] \<and>
   handle_fetch options_stream_empty_url (empty_world unreachable) =
     (\<lparr>status = 200, headers = corsHeaders, body = None\<rparr>, empty_world unreachable) \<and>
   status (fst (handle_fetch options_stream_empty_url (empty_world unreachable))) \<noteq> 400"
  by (simp add: options_stream_empty_url_def handle_fetch_def Let_def)

subsection \<open>\<open>searchTracks\<close>\<close>

lemma get_prop_nonnull: "t \<noteq> JNull \<Longrightarrow> t \<noteq> JUndefined \<Longrightarrow> get_prop t name = Inr (opt_prop t name)"
  by (cases t) (simp_all split: option.splits)

lemma track_entry_nonnull:
  assumes "t \<noteq> JNull" "t \<noteq> JUndefined"
  shows "track_entry t = Inr (JObj
       [(''id'', opt_prop t ''id''),
        (''title'', opt_prop t ''title''),
        (''permalink_url'', opt_prop t ''permalink_url''),
        (''duration'', opt_prop t ''duration''),
        (''artwork_url'', opt_prop t ''artwork_url''),
        (''user'', JObj [(''username'', opt_prop (opt_prop t ''user'') ''username''),
                         (''full_name'', opt_prop (opt_prop t ''user'') ''full_name'')]),
        (''media'', opt_prop t ''media'')])"
  using assms by (simp add: track_entry_def bind_def get_prop_nonnull)

lemma map_throwing_all:
  "(\<And>x. x \<in> set xs \<Longrightarrow> f x = Inr (g x)) \<Longrightarrow> map_throwing f xs = Inr (map g xs)"
  by (induction xs) simp_all

lemma searchTracks_ok:
  assumes g: "getClientId w = (Inr clientId, w1)"
    and r: "outcome (upstream w1 (length (requests w1))
              (Get ''https://api-v2.soundcloud.com/search/tracks''
                 [(''q'', query), (''client_id'', clientId), (''limit'', number_toString limit),
                  (''offset'', ''0''), (''linked_partitioning'', ''1'')]))
            = Resolves response"
    and n: "ok response" and j: "rjson response = Some data"
  shows "fst (searchTracks query limit w) = tracks_of data"
proof -
  let ?req = "Get ''https://api-v2.soundcloud.com/search/tracks''
                 [(''q'', query), (''client_id'', clientId), (''limit'', number_toString limit),
                  (''offset'', ''0''), (''linked_partitioning'', ''1'')]"
  have "fst (fetch ?req w1) = Resolves response" using r by (simp add: fetch_outcome)
  then obtain w2 where f: "fetch ?req w1 = (Resolves response, w2)" by (cases "fetch ?req w1") simp
  show ?thesis using g f n j by (simp add: searchTracks_def)
qed

lemma stringify_omits_undefined:
  "JSON_stringify (JObj [(''user'', JObj [(''username'', JUndefined), (''full_name'', JStr ''B'')])]) =
     JObj [(''user'', JObj [(''full_name'', JStr ''B'')])]"
  by simp

lemma searchTracks_not_ok:
  assumes g: "getClientId w = (Inr clientId, w1)"
    and r: "outcome (upstream w1 (length (requests w1))
              (Get ''https://api-v2.soundcloud.com/search/tracks''
                 [(''q'', query), (''client_id'', clientId), (''limit'', number_toString limit),
                  (''offset'', ''0''), (''linked_partitioning'', ''1'')]))
            = Resolves response"
    and n: "\<not> ok response"
  shows "fst (searchTracks query limit w) =
           Inl (Error (''SoundCloud API error: '' @ show_nat (rstatus response)))"
proof -
  let ?req = "Get ''https://api-v2.soundcloud.com/search/tracks''
                 [(''q'', query), (''client_id'', clientId), (''limit'', number_toString limit),
                  (''offset'', ''0''), (''linked_partitioning'', ''1'')]"
  have "fst (fetch ?req w1) = Resolves response" using r by (simp add: fetch_outcome)
  then obtain w2 where f: "fetch ?req w1 = (Resolves response, w2)" by (cases "fetch ?req w1") simp
  show ?thesis using g f n by (simp add: searchTracks_def)
qed

lemma tracks_of_array:
  assumes "get_prop data ''collection'' = Inr (JArr tracks)"
    and "\<forall>t\<in>set tracks. t \<noteq> JNull \<and> t \<noteq> JUndefined"
  shows "tracks_of data = Inr (map (\<lambda>t. JObj
       [(''id'', opt_prop t ''id''),
        (''title'', opt_prop t ''title''),
        (''permalink_url'', opt_prop t ''permalink_url''),
        (''duration'', opt_prop t ''duration''),
        (''artwork_url'', opt_prop t ''artwork_url''),
        (''user'', JObj [(''username'', opt_prop (opt_prop t ''user'') ''username''),
                         (''full_name'', opt_prop (opt_prop t ''user'') ''full_name'')]),
        (''media'', opt_prop t ''media'')]) tracks)"
proof -
  let ?entry = "\<lambda>t. JObj
       [(''id'', opt_prop t ''id''),
        (''title'', opt_prop t ''title''),
        (''permalink_url'', opt_prop t ''permalink_url''),
        (''duration'', opt_prop t ''duration''),
        (''artwork_url'', opt_prop t ''artwork_url''),
        (''user'', JObj [(''username'', opt_prop (opt_prop t ''user'') ''username''),
                         (''full_name'', opt_prop (opt_prop t ''user'') ''full_name'')]),
        (''media'', opt_prop t ''media'')]"
  have "map_throwing track_entry tracks = Inr (map ?entry tracks)"
    using assms(2) by (intro map_throwing_all) (simp add: track_entry_nonnull)
  then show ?thesis using assms(1) by (simp add: tracks_of_def bind_def)
qed

lemma tracks_of_falsy:
  "get_prop data ''collection'' = Inr collection \<Longrightarrow> \<not> truthy collection \<Longrightarrow> tracks_of data = Inr []"
  by (simp add: tracks_of_def bind_def)

text \<open>
  C9 (as the code has it). \<open>searchTracks\<close> looks at the status first: a response that
  is not 2xx makes it throw \<open>Error('SoundCloud API error: <status>')\<close>, whatever its
  body. For a 2xx response with a JSON body whose \<open>collection\<close> is an array of tracks,
  none of them \<open>null\<close>, it returns exactly one entry per track, in the order of the
  upstream, and every entry is the normalized object: \<open>id\<close>, \<open>title\<close>,
  \<open>permalink_url\<close>, \<open>duration\<close>, \<open>artwork_url\<close> and \<open>media\<close> read from the track, and
  a \<open>user\<close> object that holds the track's \<open>user.username\<close> and \<open>user.full_name\<close>.
  Whatever the track does not have is \<open>undefined\<close> in the entry (and left out by
  \<open>JSON.stringify\<close>), never an error. A \<open>collection\<close> that is missing or falsy gives
  the empty list.
\<close>

theorem searchTracks_one_entry_per_track:
  "getClientId w = (Inr clientId, w1) \<and>
   outcome (upstream w1 (length (requests w1))
      (Get ''https://api-v2.soundcloud.com/search/tracks''
         [(''q'', query), (''client_id'', clientId), (''limit'', number_toString limit),
          (''offset'', ''0''), (''linked_partitioning'', ''1'')]))
     = Resolves response \<longrightarrow>
     (\<not> ok response \<longrightarrow>
        fst (searchTracks query limit w) =
          Inl (Error (''SoundCloud API error: '' @ show_nat (rstatus response)))) \<and>
     (ok response \<and> rjson response = Some data \<and>
      get_prop data ''collection'' = Inr (JArr tracks) \<and>
      (\<forall>t\<in>set tracks. t \<noteq> JNull \<and> t \<noteq> JUndefined) \<longrightarrow>
        fst (searchTracks query limit w) =
          Inr (map (\<lambda>t. JObj
                 [(''id'', opt_prop t ''id''),
                  (''title'', opt_prop t ''title''),
                  (''permalink_url'', opt_prop t ''permalink_url''),
                  (''duration'', opt_prop t ''duration''),
                  (''artwork_url'', opt_prop t ''artwork_url''),
                  (''user'', JObj [(''username'', opt_prop (opt_prop t ''user'') ''username''),
                                   (''full_name'', opt_prop (opt_prop t ''user'') ''full_name'')]),
                  (''media'', opt_prop t ''media'')]) tracks)) \<and>
     (ok response \<and> rjson response = Some data \<and>
      get_prop data ''collection'' = Inr collection \<and> \<not> truthy collection \<longrightarrow>
        fst (searchTracks query limit w) = Inr [])"
proof (intro impI conjI)
  assume a: "getClientId w = (Inr clientId, w1) \<and>
   outcome (upstream w1 (length (requests w1))
      (Get ''https://api-v2.soundcloud.com/search/tracks''
         [(''q'', query), (''client_id'', clientId), (''limit'', number_toString limit),
          (''offset'', ''0''), (''linked_partitioning'', ''1'')]))
     = Resolves response"
  {
    assume "\<not> ok response"
    with a show "fst (searchTracks query limit w) =
          Inl (Error (''SoundCloud API error: '' @ show_nat (rstatus response)))"
      using searchTracks_not_ok[of w clientId w1 query limit response] by blast
  }
  {
    assume b: "ok response \<and> rjson response = Some data \<and>
      get_prop data ''collection'' = Inr (JArr tracks) \<and>
      (\<forall>t\<in>set tracks. t \<noteq> JNull \<and> t \<noteq> JUndefined)"
    with a have "fst (searchTracks query limit w) = tracks_of data"
      using searchTracks_ok[of w clientId w1 query limit response data] by blast
    with b show "fst (searchTracks query limit w) =
          Inr (map (\<lambda>t. JObj
                 [(''id'', opt_prop t ''id''),
                  (''title'', opt_prop t ''title''),
                  (''permalink_url'', opt_prop t ''permalink_url''),
                  (''duration'', opt_prop t ''duration''),
                  (''artwork_url'', opt_prop t ''artwork_url''),
                  (''user'', JObj [(''username'', opt_prop (opt_prop t ''user'') ''username''),
                                   (''full_name'', opt_prop (opt_prop t ''user'') ''full_name'')]),
                  (''media'', opt_prop t ''media'')]) tracks)"
      using tracks_of_array[of data tracks] by simp
  }
  {
    assume b: "ok response \<and> rjson response = Some data \<and>
      get_prop data ''collection'' = Inr collection \<and> \<not> truthy collection"
    with a have "fst (searchTracks query limit w) = tracks_of data"
      using searchTracks_ok[of w clientId w1 query limit response data] by blast
    with b show "fst (searchTracks query limit w) = Inr []"
      using tracks_of_falsy[of data collection] by simp
  }
qed

text \<open>
  \<open>searchTracks("lofi", 4)\<close> against the upstream that answers 200 with the four
  tracks: the four entries, the \<open>username\<close> of the last three \<open>undefined\<close>.
\<close>

theorem searchTracks_one_entry_per_track_witness:
  "fst (searchTracks ''lofi'' (Some 4) (cached_world search_upstream)) = Inr four_entries \<and>
   length four_entries = 4"
proof -
  let ?w = "cached_world search_upstream"
  let ?data = "JObj [(''collection'', JArr four_tracks)]"
  let ?r = "\<lparr>rstatus = 200, rtext = [], rjson = Some ?data\<rparr>"
  have r: "outcome (upstream ?w (length (requests ?w))
      (Get ''https://api-v2.soundcloud.com/search/tracks''
         [(''q'', ''lofi''), (''client_id'', token), (''limit'', number_toString (Some 4)),
          (''offset'', ''0''), (''linked_partitioning'', ''1'')])) = Resolves ?r"
    by (simp add: cached_world_def search_upstream_def json_reply_def)
  have k: "ok ?r \<and> rjson ?r = Some ?data" by (simp add: ok_def)
  have c: "get_prop ?data ''collection'' = Inr (JArr four_tracks)" by simp
  have nn: "\<forall>t\<in>set four_tracks. t \<noteq> JNull \<and> t \<noteq> JUndefined"
    by (simp add: four_tracks_def)
  have "fst (searchTracks ''lofi'' (Some 4) ?w) =
          Inr (map (\<lambda>t. JObj
                 [(''id'', opt_prop t ''id''),
                  (''title'', opt_prop t ''title''),
                  (''permalink_url'', opt_prop t ''permalink_url''),
                  (''duration'', opt_prop t ''duration''),
                  (''artwork_url'', opt_prop t ''artwork_url''),
                  (''user'', JObj [(''username'', opt_prop (opt_prop t ''user'') ''username''),
                                   (''full_name'', opt_prop (opt_prop t ''user'') ''full_name'')]),
                  (''media'', opt_prop t ''media'')]) four_tracks)"
    using searchTracks_one_entry_per_track[where w = ?w and clientId = token and ?w1.0 = ?w
        and query = "''lofi''" and limit = "Some 4" and response = ?r and data = ?data
        and tracks = four_tracks and collection = JNull]
      getClientId_cached_world[of search_upstream] r k c nn
    by blast
  then show ?thesis by (simp add: four_tracks_def four_entries_def)
qed

text \<open>
  The same four tracks sent with status 503: an upstream search response of four
  tracks, and \<open>searchTracks\<close> returns no entry; it throws.
\<close>

theorem searchTracks_throws_on_503:
  "outcome (tracks_with_status 503 0
      (Get ''https://api-v2.soundcloud.com/search/tracks''
         [(''q'', ''lofi''), (''client_id'', token), (''limit'', ''4''),
          (''offset'', ''0''), (''linked_partitioning'', ''1'')])) =
     Resolves \<lparr>rstatus = 503, rtext = [], rjson = Some (JObj [(''collection'', JArr four_tracks)])\<rparr> \<and>
   length four_tracks = 4 \<and>
   fst (searchTracks ''lofi'' (Some 4) (cached_world (tracks_with_status 503))) =
     Inl (Error ''SoundCloud API error: 503'')"
proof -
  let ?w = "cached_world (tracks_with_status 503)"
  let ?r = "\<lparr>rstatus = 503, rtext = [], rjson = Some (JObj [(''collection'', JArr four_tracks)])\<rparr>"
  have r: "outcome (upstream ?w (length (requests ?w))
      (Get ''https://api-v2.soundcloud.com/search/tracks''
         [(''q'', ''lofi''), (''client_id'', token), (''limit'', number_toString (Some 4)),
          (''offset'', ''0''), (''linked_partitioning'', ''1'')])) = Resolves ?r"
    by (simp add: cached_world_def tracks_with_status_def json_reply_def)
  have n: "\<not> ok ?r" by (simp add: ok_def)
  have s: "show_nat 503 = ''503''" by code_simp
  have "fst (searchTracks ''lofi'' (Some 4) ?w) = Inl (Error (''SoundCloud API error: '' @ show_nat 503))"
    using searchTracks_not_ok[OF getClientId_cached_world r n] by simp
  then show ?thesis by (simp add: s tracks_with_status_def json_reply_def four_tracks_def)
qed

subsection \<open>The transcoding \<open>getStreamUrl\<close> chooses\<close>

lemma is_progressive_nonnull:
  "t \<noteq> JNull \<Longrightarrow> t \<noteq> JUndefined \<Longrightarrow>
     is_progressive t = Inr (opt_prop (opt_prop t ''format'') ''protocol'' = JStr ''progressive'')"
  by (simp add: is_progressive_def bind_def get_prop_nonnull)

lemma find_throwing_all:
  "(\<And>x. x \<in> set xs \<Longrightarrow> p x = Inr (q x)) \<Longrightarrow>
     find_throwing p xs = Inr (case find q xs of None \<Rightarrow> JUndefined | Some x \<Rightarrow> x)"
  by (induction xs) simp_all

lemma opt_prop_defined_truthy: "opt_prop t name \<noteq> JUndefined \<Longrightarrow> truthy t"
  by (cases t) simp_all

lemma select_transcoding_array:
  assumes m: "get_prop track ''media'' = Inr media"
    and ts: "opt_prop media ''transcodings'' = JArr ts"
    and nn: "\<forall>t\<in>set ts. t \<noteq> JNull \<and> t \<noteq> JUndefined"
  shows "select_transcoding track =
     (let pick = (case find (\<lambda>t. opt_prop (opt_prop t ''format'') ''protocol'' = JStr ''progressive'') ts of
                    None \<Rightarrow> first_element ts | Some p \<Rightarrow> p)
      in if truthy (opt_prop pick ''url'') then Inr pick else Inl (Error ''No transcoding URL found''))"
proof -
  let ?q = "\<lambda>t. opt_prop (opt_prop t ''format'') ''protocol'' = JStr ''progressive''"
  have f: "find_throwing is_progressive ts = Inr (case find ?q ts of None \<Rightarrow> JUndefined | Some x \<Rightarrow> x)"
    using nn by (intro find_throwing_all) (simp add: is_progressive_nonnull)
  have tr: "truthy p" if "find ?q ts = Some p" for p
  proof -
    from that have "?q p" by (auto simp: find_Some_iff)
    then have "opt_prop (opt_prop p ''format'') ''protocol'' \<noteq> JUndefined" by simp
    then have "opt_prop p ''format'' \<noteq> JUndefined" by (cases "opt_prop p ''format''") auto
    then show ?thesis by (rule opt_prop_defined_truthy)
  qed
  show ?thesis
    using m ts f tr by (simp add: select_transcoding_def bind_def Let_def split: option.splits)
qed

text \<open>
  C3 (as the code has it). For a resolved track whose \<open>media.transcodings\<close> is an
  array with no \<open>null\<close> in it, the code first picks a variant and then looks at the
  pick's \<open>url\<close> only: the pick is the first variant whose \<open>format.protocol\<close> is
  \<open>progressive\<close>, wherever it stands in the list, and the first variant of the list
  when none is progressive. The pick is returned when its \<open>url\<close> is truthy; the call
  throws \<open>Error('No transcoding URL found')\<close> when the list is empty or the pick has no
  truthy \<open>url\<close>, whatever the other variants expose. On such a list nothing is read
  from \<open>null\<close> or \<open>undefined\<close>.
\<close>

theorem select_transcoding_policy:
  "get_prop track ''media'' = Inr media \<and> opt_prop media ''transcodings'' = JArr ts \<and>
   (\<forall>t\<in>set ts. t \<noteq> JNull \<and> t \<noteq> JUndefined) \<longrightarrow>
     (ts = pre @ p # post \<and> opt_prop (opt_prop p ''format'') ''protocol'' = JStr ''progressive'' \<and>
      (\<forall>t\<in>set pre. opt_prop (opt_prop t ''format'') ''protocol'' \<noteq> JStr ''progressive'') \<longrightarrow>
        select_transcoding track =
          (if truthy (opt_prop p ''url'') then Inr p else Inl (Error ''No transcoding URL found''))) \<and>
     (ts = t0 # rest \<and>
      (\<forall>t\<in>set ts. opt_prop (opt_prop t ''format'') ''protocol'' \<noteq> JStr ''progressive'') \<longrightarrow>
        select_transcoding track =
          (if truthy (opt_prop t0 ''url'') then Inr t0 else Inl (Error ''No transcoding URL found''))) \<and>
     (ts = [] \<longrightarrow> select_transcoding track = Inl (Error ''No transcoding URL found''))"
proof (intro impI conjI)
  let ?q = "\<lambda>t. opt_prop (opt_prop t ''format'') ''protocol'' = JStr ''progressive''"
  assume a: "get_prop track ''media'' = Inr media \<and> opt_prop media ''transcodings'' = JArr ts \<and>
   (\<forall>t\<in>set ts. t \<noteq> JNull \<and> t \<noteq> JUndefined)"
  then have s: "select_transcoding track =
     (let pick = (case find ?q ts of None \<Rightarrow> first_element ts | Some p \<Rightarrow> p)
      in if truthy (opt_prop pick ''url'') then Inr pick else Inl (Error ''No transcoding URL found''))"
    by (simp add: select_transcoding_array)
  {
    assume "ts = pre @ p # post \<and> ?q p \<and> (\<forall>t\<in>set pre. \<not> ?q t)"
    then have "find ?q ts = Some p" by (intro find_first[where pre=pre and post=post]) auto
    then show "select_transcoding track =
          (if truthy (opt_prop p ''url'') then Inr p else Inl (Error ''No transcoding URL found''))"
      by (simp add: s)
  }
  {
    assume b: "ts = t0 # rest \<and> (\<forall>t\<in>set ts. \<not> ?q t)"
    then have "find ?q ts = None" by (simp add: find_None_iff)
    then show "select_transcoding track =
          (if truthy (opt_prop t0 ''url'') then Inr t0 else Inl (Error ''No transcoding URL found''))"
      using b by (simp add: s first_element_def)
  }
  {
    assume "ts = []"
    then show "select_transcoding track = Inl (Error ''No transcoding URL found'')"
      by (simp add: s first_element_def)
  }
qed

text \<open>
  A progressive variant in second place is chosen; with none, the first variant is; the
  empty list throws the error.
\<close>

theorem select_transcoding_policy_witness:
  "select_transcoding (track_with [variant ''hls'' ''https://m.example.org/hls'',
                                   variant ''progressive'' ''https://m.example.org/mp3''])
     = Inr (variant ''progressive'' ''https://m.example.org/mp3'') \<and>
   select_transcoding (track_with [variant ''hls'' ''https://m.example.org/hls'',
                                   variant ''opus'' ''https://m.example.org/opus''])
     = Inr (variant ''hls'' ''https://m.example.org/hls'') \<and>
   select_transcoding (track_with []) = Inl (Error ''No transcoding URL found'')"
proof -
  let ?hls = "variant ''hls'' ''https://m.example.org/hls''"
  let ?mp3 = "variant ''progressive'' ''https://m.example.org/mp3''"
  let ?opus = "variant ''opus'' ''https://m.example.org/opus''"
  have m: "get_prop (track_with ts) ''media'' = Inr (JObj [(''transcodings'', JArr ts)]) \<and>
      opt_prop (JObj [(''transcodings'', JArr ts)]) ''transcodings'' = JArr ts" for ts
    by (simp add: track_with_def)
  have 1: "select_transcoding (track_with [?hls, ?mp3]) = Inr ?mp3"
    using select_transcoding_policy[of "track_with [?hls, ?mp3]" "JObj [(''transcodings'', JArr [?hls, ?mp3])]"
        "[?hls, ?mp3]" "[?hls]" ?mp3 "[]" ?hls "[?mp3]"] m[of "[?hls, ?mp3]"]
    by (simp add: variant_def)
  have 2: "select_transcoding (track_with [?hls, ?opus]) = Inr ?hls"
    using select_transcoding_policy[of "track_with [?hls, ?opus]" "JObj [(''transcodings'', JArr [?hls, ?opus])]"
        "[?hls, ?opus]" "[]" ?hls "[?opus]" ?hls "[?opus]"] m[of "[?hls, ?opus]"]
    by (simp add: variant_def)
  have 3: "select_transcoding (track_with []) = Inl (Error ''No transcoding URL found'')"
    using select_transcoding_policy[of "track_with []" "JObj [(''transcodings'', JArr [])]"
        "[]" "[]" ?hls "[]" ?hls "[]"] m[of "[]"]
    by simp
  from 1 2 3 show ?thesis by simp
qed

text \<open>
  A progressive variant without a \<open>url\<close>, followed by an HLS variant with one: a
  candidate of the list exposes a usable URL, and the call throws.
\<close>

theorem select_transcoding_ignores_other_urls:
  "truthy (opt_prop (variant ''hls'' ''https://m.example.org/hls'') ''url'') \<and>
   select_transcoding (track_with [variant_without_url ''progressive'',
                                   variant ''hls'' ''https://m.example.org/hls''])
     = Inl (Error ''No transcoding URL found'')"
  by (simp add: select_transcoding_def bind_def track_with_def variant_def variant_without_url_def
      is_progressive_def)

subsection \<open>The scrape of \<open>getClientId\<close>\<close>

lemma client_id_at_shape: "client_id_at s = Some c \<Longrightarrow> length c = 32 \<and> list_all is_alnum c"
  by (auto simp: client_id_at_def split: if_splits list.splits)

lemma match_client_id_shape: "match_client_id s = Some c \<Longrightarrow> length c = 32 \<and> list_all is_alnum c"
  by (induction s) (auto split: option.splits dest: client_id_at_shape)

lemma script_loop_filter:
  "script_loop now us w = script_loop now (filter (\<lambda>u. str_includes u ''sndcdn.com'') us) w"
  by (induction us arbitrary: w) (auto split: prod.splits fetch_outcome.splits option.splits)

lemma fetch_script:
  "fetch (Get u []) w =
     (outcome (upstream w (length (requests w)) (Get u [])), snd (fetch (Get u []) w))"
  by (simp add: fetch_def issue_def)

lemma script_loop_step_none:
  assumes "str_includes u ''sndcdn.com''" and "script_yield w (length (requests w)) u = None"
  shows "script_loop now (u # us) w = script_loop now us (snd (fetch (Get u []) w))"
  using assms by (simp add: script_yield_def fetch_def issue_def split: fetch_outcome.splits)

lemma script_loop_step_some:
  assumes "str_includes u ''sndcdn.com''" and "script_yield w (length (requests w)) u = Some tok"
  shows "script_loop now (u # us) w =
     (Inr tok, (snd (fetch (Get u []) w))\<lparr>cachedClientId := Some tok, clientIdExpiry := now + 3600000\<rparr>)"
  using assms by (simp add: script_yield_def fetch_def issue_def split: fetch_outcome.splits)

lemma script_yield_after_fetch:
  "script_yield (snd (fetch req w)) (length (requests (snd (fetch req w))) + i) u =
     script_yield w (length (requests w) + Suc i) u"
  by (simp add: script_yield_def fetch_requests fetch_cache)


lemma script_loop_first:
  assumes "\<forall>u\<in>set cands. str_includes u ''sndcdn.com''"
    and "k < length cands"
    and "script_yield w (length (requests w) + k) (cands ! k) = Some tok"
    and "\<forall>i<k. script_yield w (length (requests w) + i) (cands ! i) = None"
  shows "fst (script_loop now cands w) = Inr tok \<and>
         requests (snd (script_loop now cands w)) = requests w @ map (\<lambda>u. Get u []) (take (Suc k) cands) \<and>
         cachedClientId (snd (script_loop now cands w)) = Some tok \<and>
         clientIdExpiry (snd (script_loop now cands w)) = now + 3600000"
  using assms
proof (induction cands arbitrary: w k)
  case Nil
  then show ?case by simp
next
  case (Cons u us)
  let ?w1 = "snd (fetch (Get u []) w)"
  have inc: "str_includes u ''sndcdn.com''" using Cons.prems(1) by simp
  show ?case
  proof (cases k)
    case 0
    then have "script_yield w (length (requests w)) u = Some tok" using Cons.prems(3) by simp
    with inc have "script_loop now (u # us) w =
        (Inr tok, ?w1\<lparr>cachedClientId := Some tok, clientIdExpiry := now + 3600000\<rparr>)"
      by (rule script_loop_step_some)
    then show ?thesis using 0 by (simp add: fetch_requests del: script_loop.simps)
  next
    case (Suc j)
    have y0: "script_yield w (length (requests w)) u = None" using Cons.prems(4) Suc by fastforce
    have step: "script_loop now (u # us) w = script_loop now us ?w1"
      using inc y0 by (rule script_loop_step_none)
    have yj: "script_yield ?w1 (length (requests ?w1) + j) (us ! j) = Some tok"
      using Cons.prems(3) Suc by (simp add: script_yield_after_fetch)
    have ys: "\<forall>i<j. script_yield ?w1 (length (requests ?w1) + i) (us ! i) = None"
    proof (intro allI impI)
      fix i assume "i < j"
      then have "script_yield w (length (requests w) + Suc i) ((u # us) ! Suc i) = None"
        using Cons.prems(4) Suc by (metis Suc_less_eq)
      then show "script_yield ?w1 (length (requests ?w1) + i) (us ! i) = None"
        by (simp add: script_yield_after_fetch)
    qed
    have "\<forall>u\<in>set us. str_includes u ''sndcdn.com''" using Cons.prems(1) by simp
    moreover have "j < length us" using Cons.prems(2) Suc by simp
    ultimately show ?thesis
      using Cons.IH[of j ?w1] yj ys Suc by (simp add: step fetch_requests del: script_loop.simps)
  qed
qed


lemma script_loop_Inr:
  "script_loop now us w = (Inr c, w1) \<Longrightarrow>
     cachedClientId w1 = Some c \<and> clientIdExpiry w1 = now + 3600000 \<and> length c = 32"
  by (induction us arbitrary: w)
    (auto split: if_splits prod.splits fetch_outcome.splits option.splits dest: match_client_id_shape)

lemma script_loop_requests: "\<exists>rest. requests (snd (script_loop now us w)) = requests w @ rest"
proof (induction us arbitrary: w)
  case Nil
  then show ?case by simp
next
  case (Cons u us)
  obtain rest where r: "requests (snd (script_loop now us w)) = requests w @ rest"
    using Cons.IH by blast
  obtain rest1 where r1: "requests (snd (script_loop now us (snd (fetch (Get u []) w)))) =
      requests (snd (fetch (Get u []) w)) @ rest1"
    using Cons.IH by blast
  show ?case
  proof (cases "str_includes u ''sndcdn.com''")
    case False
    then show ?thesis using r by simp
  next
    case True
    obtain o1 w1 where f: "fetch (Get u []) w = (o1, w1)" by (cases "fetch (Get u []) w")
    then have w1: "requests w1 = requests w @ [Get u []]" using fetch_requests[of "Get u []" w] by simp
    from r1 f have r1': "requests (snd (script_loop now us w1)) = requests w1 @ rest1" by simp
    show ?thesis using True f w1 r1'
      by (auto split: fetch_outcome.splits option.splits)
  qed
qed


lemma scrape_resolved:
  "outcome (upstream w (length (requests w)) home_page) = Resolves page \<Longrightarrow>
     scrape now w = script_loop now (page_scripts w) (snd (fetch home_page w))"
  by (simp add: scrape_def fetch_def issue_def page_scripts_def script_loop_filter[symmetric])

lemma page_scripts_cdn: "\<forall>u\<in>set (page_scripts w). str_includes u ''sndcdn.com''"
  by (auto simp: page_scripts_def split: fetch_outcome.splits)

lemma getClientId_miss: "\<not> cache_hit (clock w) w \<Longrightarrow> getClientId w = scrape (clock w) w"
  by (auto simp: getClientId_def cache_hit_def Let_def split: option.splits)

lemma getClientId_hit:
  "cachedClientId w = Some c \<Longrightarrow> c \<noteq> [] \<Longrightarrow> clock w < clientIdExpiry w \<Longrightarrow> getClientId w = (Inr c, w)"
  by (simp add: getClientId_def Let_def)


lemma scrape_first:
  assumes k: "k < length (page_scripts w)"
    and y: "script_yield w (Suc (length (requests w) + k)) (page_scripts w ! k) = Some tok"
    and n: "\<forall>i<k. script_yield w (Suc (length (requests w) + i)) (page_scripts w ! i) = None"
  shows "fst (scrape now w) = Inr tok \<and>
         requests (snd (scrape now w)) =
           requests w @ home_page # map (\<lambda>u. Get u []) (take (Suc k) (page_scripts w)) \<and>
         cachedClientId (snd (scrape now w)) = Some tok \<and>
         clientIdExpiry (snd (scrape now w)) = now + 3600000"
proof -
  let ?w1 = "snd (fetch home_page w)"
  from k obtain page where p: "outcome (upstream w (length (requests w)) home_page) = Resolves page"
    by (cases "outcome (upstream w (length (requests w)) home_page)") (simp_all add: page_scripts_def)
  have y': "script_yield ?w1 (length (requests ?w1) + k) (page_scripts w ! k) = Some tok"
    using y by (simp add: script_yield_after_fetch)
  have n': "\<forall>i<k. script_yield ?w1 (length (requests ?w1) + i) (page_scripts w ! i) = None"
    using n by (simp add: script_yield_after_fetch)
  from script_loop_first[OF page_scripts_cdn k y' n', of now] show ?thesis
    by (simp add: scrape_resolved[OF p] fetch_requests)
qed





lemma script_srcs_page_html:
  "script_srcs page_html =
     [''https://a-v2.sndcdn.com/assets/0-1a2b.js'', ''https://cdn.example.org/x.js'',
      ''https://a-v2.sndcdn.com/assets/50-9f.js'']"
  by code_simp

lemma match_script_with_id: "match_client_id script_with_id = Some token"
  by code_simp

lemma page_scripts_cdn_upstream:
  "page_scripts (empty_world cdn_upstream) =
     [''https://a-v2.sndcdn.com/assets/0-1a2b.js'', ''https://a-v2.sndcdn.com/assets/50-9f.js'']"
  by (simp add: page_scripts_def empty_world_def cdn_upstream_def text_reply_def script_srcs_page_html)


lemma cdn_world_miss: "\<not> cache_hit (clock (empty_world up)) (empty_world up)"
  by (simp add: cache_hit_def empty_world_def)

lemma cdn_yields:
  "script_yield (empty_world cdn_upstream) 1 ''https://a-v2.sndcdn.com/assets/0-1a2b.js'' = None"
  "script_yield (empty_world cdn_upstream) 2 ''https://a-v2.sndcdn.com/assets/50-9f.js'' = Some token"
  by (simp_all add: script_yield_def empty_world_def cdn_upstream_def text_reply_def home_page_def
      match_script_with_id)


subsection \<open>The cache of \<open>getClientId\<close>\<close>

lemma scrape_Inr:
  assumes "scrape now w = (Inr c, w1)"
  shows "cachedClientId w1 = Some c \<and> clientIdExpiry w1 = now + 3600000 \<and> length c = 32"
proof (cases "fetch home_page w")
  case (Pair o1 w0)
  show ?thesis
  proof (cases o1)
    case (Rejects m)
    with Pair assms show ?thesis by (simp add: scrape_def)
  next
    case (Resolves page)
    with Pair assms have "script_loop now (script_srcs (rtext page)) w0 = (Inr c, w1)"
      by (simp add: scrape_def)
    then show ?thesis by (rule script_loop_Inr)
  qed
qed

lemma scrape_requests: "\<exists>rest. requests (snd (scrape now w)) = requests w @ home_page # rest"
proof (cases "fetch home_page w")
  case (Pair o1 w0)
  then have w0: "requests w0 = requests w @ [home_page]"
    using fetch_requests[of home_page w] by simp
  show ?thesis
  proof (cases o1)
    case (Rejects m)
    with Pair w0 show ?thesis by (simp add: scrape_def)
  next
    case (Resolves page)
    obtain rest where "requests (snd (script_loop now (script_srcs (rtext page)) w0)) = requests w0 @ rest"
      using script_loop_requests by blast
    with Pair Resolves w0 show ?thesis by (simp add: scrape_def)
  qed
qed

lemma getClientId_Inr:
  assumes "getClientId w = (Inr c, w1)"
  shows "cachedClientId w1 = Some c \<and> c \<noteq> []"
proof (cases "cache_hit (clock w) w")
  case True
  then obtain c0 where c0: "cachedClientId w = Some c0" "c0 \<noteq> []" "clock w < clientIdExpiry w"
    by (auto simp: cache_hit_def split: option.splits)
  then have "getClientId w = (Inr c0, w)" by (simp add: getClientId_hit)
  with assms c0 show ?thesis by simp
next
  case False
  then have "scrape (clock w) w = (Inr c, w1)" using assms by (simp add: getClientId_miss)
  then have "cachedClientId w1 = Some c \<and> length c = 32" using scrape_Inr by blast
  then show ?thesis by auto
qed

text \<open>
  C4. The expiry is the field \<open>clientIdExpiry\<close>, set by a successful scrape to one hour
  after the reading of the clock the call began with. Once a call has returned a
  credential, a call at any time before the expiry returns the same string and leaves
  the state as it is: no request is sent, so this holds for any number of such calls. A
  call at or after the expiry sends the request for the landing page: a new scrape.
\<close>

theorem getClientId_ttl:
  "(getClientId w = (Inr c, w1) \<and> t < clientIdExpiry w1 \<longrightarrow>
      getClientId (w1\<lparr>clock := t\<rparr>) = (Inr c, w1\<lparr>clock := t\<rparr>)) \<and>
   (\<not> cache_hit (clock w) w \<and> getClientId w = (Inr c, w1) \<longrightarrow>
      clientIdExpiry w1 = clock w + 3600000) \<and>
   (cachedClientId w = Some c \<and> c \<noteq> [] \<and> clock w < clientIdExpiry w \<longrightarrow>
      getClientId w = (Inr c, w)) \<and>
   (clientIdExpiry w \<le> clock w \<longrightarrow>
      (\<exists>rest. requests (snd (getClientId w)) = requests w @ home_page # rest))"
proof (intro conjI impI)
  assume a: "getClientId w = (Inr c, w1) \<and> t < clientIdExpiry w1"
  then have "cachedClientId w1 = Some c \<and> c \<noteq> []" using getClientId_Inr by blast
  with a show "getClientId (w1\<lparr>clock := t\<rparr>) = (Inr c, w1\<lparr>clock := t\<rparr>)"
    by (simp add: getClientId_hit)
next
  assume a: "\<not> cache_hit (clock w) w \<and> getClientId w = (Inr c, w1)"
  then have "scrape (clock w) w = (Inr c, w1)" using getClientId_miss[of w] by simp
  then show "clientIdExpiry w1 = clock w + 3600000" using scrape_Inr by blast
next
  assume "cachedClientId w = Some c \<and> c \<noteq> [] \<and> clock w < clientIdExpiry w"
  then show "getClientId w = (Inr c, w)" by (simp add: getClientId_hit)
next
  assume "clientIdExpiry w \<le> clock w"
  then have "\<not> cache_hit (clock w) w" by (simp add: cache_hit_def split: option.splits)
  then have "getClientId w = scrape (clock w) w" by (rule getClientId_miss)
  then show "\<exists>rest. requests (snd (getClientId w)) = requests w @ home_page # rest"
    using scrape_requests[of "clock w" w] by simp
qed

lemma getClientId_cdn_world: "fst (getClientId (empty_world cdn_upstream)) = Inr token"
proof -
  let ?w = "empty_world cdn_upstream"
  have n: "length (requests ?w) = 0" by (simp add: empty_world_def)
  have k: "Suc 0 < length (page_scripts ?w)" by (simp add: page_scripts_cdn_upstream)
  have y: "script_yield ?w (Suc (length (requests ?w) + Suc 0)) (page_scripts ?w ! Suc 0) = Some token"
    using cdn_yields(2) by (simp add: n page_scripts_cdn_upstream numeral_2_eq_2)
  have z: "\<forall>i<Suc 0. script_yield ?w (Suc (length (requests ?w) + i)) (page_scripts ?w ! i) = None"
    using cdn_yields(1) by (simp add: n page_scripts_cdn_upstream)
  from scrape_first[OF k y z, of "clock ?w"] show ?thesis
    by (simp add: getClientId_miss[OF cdn_world_miss])
qed

text \<open>
  After the first scrape, begun at time 1000, the expiry is 3601000: a call at 3600999
  returns the token and changes nothing, a call at 3601000 asks for the landing page.
\<close>

theorem getClientId_ttl_witness:
  "clientIdExpiry acquired_world = 3601000 \<and>
   getClientId (acquired_world\<lparr>clock := 3600999\<rparr>) = (Inr token, acquired_world\<lparr>clock := 3600999\<rparr>) \<and>
   (\<exists>rest. requests (snd (getClientId (acquired_world\<lparr>clock := 3601000\<rparr>))) =
      requests acquired_world @ home_page # rest)"
proof -
  let ?w = "empty_world cdn_upstream"
  have g: "getClientId ?w = (Inr token, acquired_world)"
    using getClientId_cdn_world by (simp add: acquired_world_def prod_eq_iff)
  have e: "clientIdExpiry acquired_world = 3601000"
    using getClientId_ttl[of ?w token acquired_world] g cdn_world_miss[of cdn_upstream]
    by (simp add: empty_world_def)
  have h: "getClientId (acquired_world\<lparr>clock := 3600999\<rparr>) = (Inr token, acquired_world\<lparr>clock := 3600999\<rparr>)"
    using getClientId_ttl[of ?w token acquired_world 3600999] g e by simp
  have x: "\<exists>rest. requests (snd (getClientId (acquired_world\<lparr>clock := 3601000\<rparr>))) =
      requests acquired_world @ home_page # rest"
    using getClientId_ttl[of "acquired_world\<lparr>clock := 3601000\<rparr>" token acquired_world 0] e by simp
  from e h x show ?thesis by simp
qed

subsection \<open>Concurrent calls\<close>

text \<open>
  The segments are those of the function: a call that runs alone, segment after segment,
  returns what \<open>getClientId\<close> returns and leaves the state \<open>getClientId\<close> leaves.
\<close>

lemma run_append: "run (es @ fs) s = run fs (run es s)"
  by (induction es arbitrary: s) simp_all

lemma script_loop_segments:
  "\<exists>n. run (replicate n (Run 0)) ([fst (next_script now us w)], snd (next_script now us w)) =
     ([Returned (fst (script_loop now us w))], snd (script_loop now us w))"
proof (induction us arbitrary: w)
  case Nil
  have "run (replicate 0 (Run 0)) ([fst (next_script now [] w)], snd (next_script now [] w)) =
     ([Returned (fst (script_loop now [] w))], snd (script_loop now [] w))" by simp
  then show ?case by blast
next
  case (Cons u us)
  show ?case
  proof (cases "str_includes u ''sndcdn.com''")
    case False
    with Cons.IH[of w] show ?thesis by simp
  next
    case True
    obtain r w1 where i: "issue (Get u []) w = (r, w1)" by (cases "issue (Get u []) w")
    let ?w2 = "arrive (clock w) r w1"
    have f: "fetch (Get u []) w = (outcome r, ?w2)" by (simp add: fetch_def i)
    have ns: "next_script now (u # us) w = (AwaitingScript now (clock w) r us, w1)"
      using True i by simp
    show ?thesis
    proof (cases "outcome r")
      case (Rejects m)
      have sl: "script_loop now (u # us) w = script_loop now us ?w2"
        using True f Rejects by simp
      have rs: "resume (AwaitingScript now (clock w) r us) w1 = next_script now us ?w2"
        using Rejects by simp
      from Cons.IH[of ?w2] obtain n where
        n: "run (replicate n (Run 0)) ([fst (next_script now us ?w2)], snd (next_script now us ?w2)) =
          ([Returned (fst (script_loop now us ?w2))], snd (script_loop now us ?w2))" by blast
      have "run (replicate (Suc n) (Run 0)) ([fst (next_script now (u # us) w)], snd (next_script now (u # us) w)) =
          ([Returned (fst (script_loop now (u # us) w))], snd (script_loop now (u # us) w))"
        using n by (simp add: ns rs sl split_beta del: next_script.simps script_loop.simps resume.simps)
      then show ?thesis by blast
    next
      case (Resolves scriptResp)
      show ?thesis
      proof (cases "match_client_id (rtext scriptResp)")
        case None
        have sl: "script_loop now (u # us) w = script_loop now us ?w2"
          using True f Resolves None by simp
        have rs: "resume (AwaitingScript now (clock w) r us) w1 = next_script now us ?w2"
          using Resolves None by simp
        from Cons.IH[of ?w2] obtain n where
          n: "run (replicate n (Run 0)) ([fst (next_script now us ?w2)], snd (next_script now us ?w2)) =
            ([Returned (fst (script_loop now us ?w2))], snd (script_loop now us ?w2))" by blast
        have "run (replicate (Suc n) (Run 0)) ([fst (next_script now (u # us) w)], snd (next_script now (u # us) w)) =
            ([Returned (fst (script_loop now (u # us) w))], snd (script_loop now (u # us) w))"
          using n by (simp add: ns rs sl split_beta del: next_script.simps script_loop.simps resume.simps)
        then show ?thesis by blast
      next
        case (Some cid)
        have sl: "script_loop now (u # us) w =
            (Inr cid, ?w2\<lparr>cachedClientId := Some cid, clientIdExpiry := now + 3600000\<rparr>)"
          using True f Resolves Some by simp
        have rs: "resume (AwaitingScript now (clock w) r us) w1 =
            (Returned (Inr cid), ?w2\<lparr>cachedClientId := Some cid, clientIdExpiry := now + 3600000\<rparr>)"
          using Resolves Some by simp
        have "run (replicate (Suc 0) (Run 0)) ([fst (next_script now (u # us) w)], snd (next_script now (u # us) w)) =
            ([Returned (fst (script_loop now (u # us) w))], snd (script_loop now (u # us) w))"
          by (simp add: ns rs sl del: next_script.simps script_loop.simps resume.simps)
        then show ?thesis by blast
      qed
    qed
  qed
qed

lemma getClientId_segments:
  "\<exists>n. run (replicate n (Run 0)) ([NotStarted], w) = ([Returned (fst (getClientId w))], snd (getClientId w))"
proof (cases "cache_hit (clock w) w")
  case True
  then obtain c where c: "cachedClientId w = Some c" "c \<noteq> []" "clock w < clientIdExpiry w"
    by (auto simp: cache_hit_def split: option.splits)
  then have "run (replicate (Suc 0) (Run 0)) ([NotStarted], w) =
      ([Returned (fst (getClientId w))], snd (getClientId w))"
    by (simp add: getClientId_hit)
  then show ?thesis by blast
next
  case False
  then have g: "getClientId w = scrape (clock w) w" by (rule getClientId_miss)
  have r0: "resume NotStarted w = start_scrape (clock w) w"
    using False by (auto simp: cache_hit_def Let_def split: option.splits)
  obtain r w1 where i: "issue home_page w = (r, w1)" by (cases "issue home_page w")
  let ?w2 = "arrive (clock w) r w1"
  have f: "fetch home_page w = (outcome r, ?w2)" by (simp add: fetch_def i)
  have s1: "run [Run 0] ([NotStarted], w) = ([AwaitingPage (clock w) (clock w) r], w1)"
    by (simp add: r0 start_scrape_def i del: resume.simps)
  show ?thesis
  proof (cases "outcome r")
    case (Rejects m)
    have "run (replicate (Suc (Suc 0)) (Run 0)) ([NotStarted], w) =
        ([Returned (fst (getClientId w))], snd (getClientId w))"
      using Rejects by (simp add: r0 start_scrape_def i g scrape_def f del: resume.simps(1))
    then show ?thesis by blast
  next
    case (Resolves response)
    let ?us = "script_srcs (rtext response)"
    have sc: "scrape (clock w) w = script_loop (clock w) ?us ?w2"
      using Resolves by (simp add: scrape_def f)
    have s2: "run [Run 0] ([AwaitingPage (clock w) (clock w) r], w1) =
        ([fst (next_script (clock w) ?us ?w2)], snd (next_script (clock w) ?us ?w2))"
      using Resolves by (simp add: split_beta)
    from script_loop_segments[of "clock w" ?us ?w2] obtain n where
      n: "run (replicate n (Run 0)) ([fst (next_script (clock w) ?us ?w2)], snd (next_script (clock w) ?us ?w2)) =
        ([Returned (fst (script_loop (clock w) ?us ?w2))], snd (script_loop (clock w) ?us ?w2))" by blast
    have "replicate (Suc (Suc n)) (Run 0) = [Run 0] @ [Run 0] @ replicate n (Run 0)" by simp
    then have "run (replicate (Suc (Suc n)) (Run 0)) ([NotStarted], w) =
        run (replicate n (Run 0)) (run [Run 0] (run [Run 0] ([NotStarted], w)))"
      by (simp only: run_append)
    also have "\<dots> = ([Returned (fst (getClientId w))], snd (getClientId w))"
      by (simp only: s1 s2 n g sc)
    finally show ?thesis by blast
  qed
qed

lemma cdn_url_not_home_page: "str_includes u ''sndcdn.com'' \<Longrightarrow> Get u [] \<noteq> home_page"
proof
  assume i: "str_includes u ''sndcdn.com''" and "Get u [] = home_page"
  then have "u = ''https://soundcloud.com/''" by (simp add: home_page_def)
  moreover have "\<not> str_includes ''https://soundcloud.com/'' ''sndcdn.com''" by code_simp
  ultimately show False using i by simp
qed

lemma scrapes_issue:
  "scrapes (snd (issue req w)) = (if req = home_page then Suc (scrapes w) else scrapes w)"
  by (simp add: scrapes_def issue_def)

lemma scrapes_arrive: "scrapes (arrive sent r w) = scrapes w"
  by (simp add: scrapes_def arrive_def)

lemma next_script_scrapes:
  "scrapes (snd (next_script now us w)) = scrapes w \<and> fst (next_script now us w) \<noteq> NotStarted"
proof (induction us arbitrary: w)
  case Nil
  then show ?case by simp
next
  case (Cons u us)
  show ?case
  proof (cases "str_includes u ''sndcdn.com''")
    case True
    then have "scrapes (snd (issue (Get u []) w)) = scrapes w"
      by (simp add: scrapes_issue cdn_url_not_home_page)
    with True show ?thesis by (simp add: split_beta)
  next
    case False
    with Cons.IH show ?thesis by simp
  qed
qed

lemma resume_started:
  assumes "c \<noteq> NotStarted"
  shows "scrapes (snd (resume c w)) = scrapes w \<and> fst (resume c w) \<noteq> NotStarted"
proof (cases c)
  case NotStarted
  with assms show ?thesis by simp
next
  case (AwaitingPage now sent r)
  show ?thesis
  proof (cases "outcome r")
    case (Rejects m)
    with AwaitingPage show ?thesis by (simp add: scrapes_arrive)
  next
    case (Resolves response)
    with AwaitingPage show ?thesis
      using next_script_scrapes[of now "script_srcs (rtext response)" "arrive sent r w"]
      by (simp add: scrapes_arrive)
  qed
next
  case (AwaitingScript now sent r rest)
  have n: "scrapes (snd (next_script now rest (arrive sent r w))) = scrapes w \<and>
      fst (next_script now rest (arrive sent r w)) \<noteq> NotStarted"
    using next_script_scrapes[of now rest "arrive sent r w"] by (simp add: scrapes_arrive)
  show ?thesis
  proof (cases "outcome r")
    case (Rejects m)
    with AwaitingScript n show ?thesis by simp
  next
    case (Resolves scriptResp)
    show ?thesis
    proof (cases "match_client_id (rtext scriptResp)")
      case None
      with AwaitingScript Resolves n show ?thesis by simp
    next
      case (Some cid)
      with AwaitingScript Resolves show ?thesis by (simp add: scrapes_def arrive_def)
    qed
  qed
next
  case (Returned res)
  then show ?thesis by simp
qed

lemma resume_miss:
  assumes "\<not> cache_hit (clock w) w"
  shows "scrapes (snd (resume NotStarted w)) = Suc (scrapes w) \<and> fst (resume NotStarted w) \<noteq> NotStarted"
proof -
  have "resume NotStarted w = start_scrape (clock w) w"
    using assms by (auto simp: cache_hit_def Let_def split: option.splits)
  then show ?thesis by (simp add: start_scrape_def split_beta scrapes_issue)
qed

lemma started_update_begin:
  "i < length cs \<Longrightarrow> cs ! i = NotStarted \<Longrightarrow> c \<noteq> NotStarted \<Longrightarrow> started (cs[i := c]) = Suc (started cs)"
proof (induction cs arbitrary: i)
  case Nil
  then show ?case by simp
next
  case (Cons a cs)
  then show ?case by (cases i) (simp_all add: started_def)
qed

lemma started_update_same:
  "i < length cs \<Longrightarrow> cs ! i \<noteq> NotStarted \<Longrightarrow> c \<noteq> NotStarted \<Longrightarrow> started (cs[i := c]) = started cs"
proof (induction cs arbitrary: i)
  case Nil
  then show ?case by simp
next
  case (Cons a cs)
  then show ?case by (cases i) (simp_all add: started_def)
qed

lemma step_scrapes:
  assumes "begins_on_miss e (cs, w)"
  shows "scrapes (snd (step e (cs, w))) + started cs = scrapes w + started (fst (step e (cs, w)))"
proof (cases e)
  case (Wait d)
  then show ?thesis by (simp add: scrapes_def)
next
  case (Run i)
  show ?thesis
  proof (cases "i < length cs")
    case False
    with Run show ?thesis by simp
  next
    case True
    show ?thesis
    proof (cases "cs ! i = NotStarted")
      case ns: True
      with assms Run True have "\<not> cache_hit (clock w) w" by simp
      from resume_miss[OF this] show ?thesis
        using Run True ns by (simp add: split_beta started_update_begin)
    next
      case st: False
      from resume_started[OF this, of w] show ?thesis
        using Run True st by (simp add: split_beta started_update_same)
    qed
  qed
qed

text \<open>
  C1 (as the code has it). \<open>getClientId\<close> keeps no promise of a scrape in flight: a
  call that finds no unexpired credential sends its own request for the landing page
  before it first waits. So for every schedule of concurrent calls in which each call
  that begins observes a miss, the number of scrapes performed grows by the number of
  calls that began: one scrape per call.
\<close>

theorem every_miss_starts_a_scrape:
  "all_observe_miss sched (cs, w) \<longrightarrow>
     scrapes (snd (run sched (cs, w))) + started cs = scrapes w + started (fst (run sched (cs, w)))"
proof (induction sched arbitrary: cs w)
  case Nil
  then show ?case by simp
next
  case (Cons e es)
  show ?case
  proof
    assume a: "all_observe_miss (e # es) (cs, w)"
    obtain cs1 w1 where s: "step e (cs, w) = (cs1, w1)" by (cases "step e (cs, w)")
    from a have b: "begins_on_miss e (cs, w)" and r: "all_observe_miss es (cs1, w1)" by (simp_all add: s)
    from step_scrapes[OF b] s have 1: "scrapes w1 + started cs = scrapes w + started cs1" by simp
    from Cons.IH[of cs1 w1] r
    have 2: "scrapes (snd (run es (cs1, w1))) + started cs1 = scrapes w1 + started (fst (run es (cs1, w1)))"
      by simp
    from 1 2 show "scrapes (snd (run (e # es) (cs, w))) + started cs =
        scrapes w + started (fst (run (e # es) (cs, w)))"
      by (simp add: s)
  qed
qed


text \<open>Three calls begin on the empty cache: three scrapes.\<close>

theorem every_miss_starts_a_scrape_witness:
  "scrapes (snd (run [Run 0, Run 1, Run 2] three_callers)) = 3"
proof -
  let ?cs = "[NotStarted, NotStarted, NotStarted]"
  let ?w = "empty_world cdn_upstream"
  have a: "all_observe_miss [Run 0, Run 1, Run 2] (?cs, ?w)" by code_simp
  have b: "started ?cs = 0" by (simp add: started_def)
  have c: "scrapes ?w = 0" by (simp add: scrapes_def empty_world_def)
  have d: "started (fst (run [Run 0, Run 1, Run 2] (?cs, ?w))) = 3" by code_simp
  from every_miss_starts_a_scrape[of "[Run 0, Run 1, Run 2]" ?cs ?w] a b c d
  show ?thesis by (simp add: three_callers_def)
qed

text \<open>
  Two calls that run in turn on the empty cache both observe the miss, and two scrapes
  are performed, not one.
\<close>

theorem two_callers_two_scrapes:
  "all_observe_miss alternating two_callers \<and>
   fst (run alternating two_callers) = [Returned (Inr token), Returned (Inr token)] \<and>
   scrapes (snd (run alternating two_callers)) = 2"
  by code_simp

end
